theory Spec2Isabelle
  imports Main
begin

section \<open>The suggestions store\<close>

text \<open>
  The suggestion workflow of \<^verbatim>\<open>main.py\<close> keeps three SQLite tables. Each table is a
  list of rows, in insertion order; the primary keys of the schema are not built into
  the types but enforced where the source lets SQLite enforce them: an \<^verbatim>\<open>INSERT\<close> on
  an existing key raises \<^verbatim>\<open>sqlite3.IntegrityError\<close>. Identifiers of the platform
  (guilds, users, roles, channels, messages, threads) are Python integers; a column that
  may hold \<^verbatim>\<open>NULL\<close> is an option.
\<close>

record guild_settings =
  gs_guild_id :: int
  suggestion_channel_id :: "int option"
  reviewer_role_id :: "int option"
  blocked_role_id :: "int option"

record suggestion =
  suggestion_id :: string
  guild_id :: int
  user_id :: int
  message_id :: int
  thread_id :: "int option"
  title :: string
  description :: string
  pros :: string
  cons :: string
  image_url :: "string option"
  status :: string
  created_at :: string
  decision_reason :: "string option"
  decided_anonymously :: int

record vote =
  vote_suggestion_id :: string
  vote_user_id :: int
  vote_type :: string

record db =
  suggestion_guild_settings :: "guild_settings list"
  suggestions :: "suggestion list"
  votes :: "vote list"

text \<open>
  The exceptions the modelled code can meet: the store's \<^verbatim>\<open>sqlite3.IntegrityError\<close>,
  Python's own \<^verbatim>\<open>IndexError\<close>, \<^verbatim>\<open>KeyError\<close> and \<^verbatim>\<open>RuntimeError\<close>, and the
  platform library's \<^verbatim>\<open>discord.Forbidden\<close>, \<^verbatim>\<open>discord.NotFound\<close> and any other
  \<^verbatim>\<open>discord.HTTPException\<close>.
\<close>

datatype exn = IntegrityError | IndexError | KeyError | RuntimeError
  | Forbidden | NotFound | HTTPException

text \<open>Python truthiness of an optional integer: \<^verbatim>\<open>None\<close> and \<^verbatim>\<open>0\<close> are false.\<close>

fun truthy :: "int option \<Rightarrow> bool" where
  "truthy None = False"
| "truthy (Some n) = (n \<noteq> 0)"

subsection \<open>Guild settings\<close>

definition get_guild_settings :: "db \<Rightarrow> int \<Rightarrow> (int option \<times> int option \<times> int option) option" where
  "get_guild_settings d g =
     map_option (\<lambda>r. (suggestion_channel_id r, reviewer_role_id r, blocked_role_id r))
       (find (\<lambda>r. gs_guild_id r = g) (suggestion_guild_settings d))"

definition set_suggestion_channel :: "db \<Rightarrow> int \<Rightarrow> int \<Rightarrow> db" where
  "set_suggestion_channel d g channel =
     (case find (\<lambda>r. gs_guild_id r = g) (suggestion_guild_settings d) of
        None \<Rightarrow> d\<lparr>suggestion_guild_settings := suggestion_guild_settings d @
                 [\<lparr>gs_guild_id = g, suggestion_channel_id = Some channel,
                   reviewer_role_id = None, blocked_role_id = None\<rparr>]\<rparr>
      | Some _ \<Rightarrow> d\<lparr>suggestion_guild_settings :=
                 map (\<lambda>r. if gs_guild_id r = g then r\<lparr>suggestion_channel_id := Some channel\<rparr> else r)
                   (suggestion_guild_settings d)\<rparr>)"

definition set_reviewer_role :: "db \<Rightarrow> int \<Rightarrow> int \<Rightarrow> db" where
  "set_reviewer_role d g role =
     (case find (\<lambda>r. gs_guild_id r = g) (suggestion_guild_settings d) of
        None \<Rightarrow> d\<lparr>suggestion_guild_settings := suggestion_guild_settings d @
                 [\<lparr>gs_guild_id = g, suggestion_channel_id = None,
                   reviewer_role_id = Some role, blocked_role_id = None\<rparr>]\<rparr>
      | Some _ \<Rightarrow> d\<lparr>suggestion_guild_settings :=
                 map (\<lambda>r. if gs_guild_id r = g then r\<lparr>reviewer_role_id := Some role\<rparr> else r)
                   (suggestion_guild_settings d)\<rparr>)"

definition set_blocked_role :: "db \<Rightarrow> int \<Rightarrow> int \<Rightarrow> db" where
  "set_blocked_role d g role =
     (case find (\<lambda>r. gs_guild_id r = g) (suggestion_guild_settings d) of
        None \<Rightarrow> d\<lparr>suggestion_guild_settings := suggestion_guild_settings d @
                 [\<lparr>gs_guild_id = g, suggestion_channel_id = None,
                   reviewer_role_id = None, blocked_role_id = Some role\<rparr>]\<rparr>
      | Some _ \<Rightarrow> d\<lparr>suggestion_guild_settings :=
                 map (\<lambda>r. if gs_guild_id r = g then r\<lparr>blocked_role_id := Some role\<rparr> else r)
                   (suggestion_guild_settings d)\<rparr>)"

subsection \<open>Suggestions\<close>

text \<open>
  \<^verbatim>\<open>save_suggestion\<close> inserts a row with status \<^verbatim>\<open>'pending'\<close>, no decision reason and
  anonymity flag 0. The creation time is read from the clock in the source and is an
  argument here. The primary key \<^verbatim>\<open>suggestion_id\<close> makes the insert raise when the
  identifier is already stored.
\<close>

definition save_suggestion ::
  "db \<Rightarrow> string \<Rightarrow> string \<Rightarrow> int \<Rightarrow> int \<Rightarrow> int \<Rightarrow> int option \<Rightarrow> string \<Rightarrow> string \<Rightarrow> string \<Rightarrow> string
     \<Rightarrow> string option \<Rightarrow> exn + db" where
  "save_suggestion d now sid g u mid tid ttl descr prs cns img =
     (case find (\<lambda>r. suggestion_id r = sid) (suggestions d) of
        Some _ \<Rightarrow> Inl IntegrityError
      | None \<Rightarrow> Inr (d\<lparr>suggestions := suggestions d @
                 [\<lparr>suggestion_id = sid, guild_id = g, user_id = u, message_id = mid,
                   thread_id = tid, title = ttl, description = descr, pros = prs, cons = cns,
                   image_url = img, status = ''pending'', created_at = now,
                   decision_reason = None, decided_anonymously = 0\<rparr>]\<rparr>))"

definition get_suggestion :: "db \<Rightarrow> string \<Rightarrow> suggestion option" where
  "get_suggestion d sid = find (\<lambda>r. suggestion_id r = sid) (suggestions d)"

definition update_suggestion_status :: "db \<Rightarrow> string \<Rightarrow> string \<Rightarrow> string option \<Rightarrow> bool \<Rightarrow> db" where
  "update_suggestion_status d sid st reason anonymous =
     d\<lparr>suggestions :=
         map (\<lambda>r. if suggestion_id r = sid
                   then r\<lparr>status := st, decision_reason := reason,
                          decided_anonymously := (if anonymous then 1 else 0)\<rparr>
                   else r)
           (suggestions d)\<rparr>"

subsection \<open>Votes\<close>

definition vote_key :: "string \<Rightarrow> int \<Rightarrow> vote \<Rightarrow> bool" where
  "vote_key sid u r = (vote_suggestion_id r = sid \<and> vote_user_id r = u)"

text \<open>
  \<^verbatim>\<open>add_vote\<close> returns \<^verbatim>\<open>False\<close> and stores nothing when the primary key
  \<^verbatim>\<open>(suggestion_id, user_id)\<close> is taken (the \<^verbatim>\<open>IntegrityError\<close> branch).
\<close>

definition add_vote :: "db \<Rightarrow> string \<Rightarrow> int \<Rightarrow> string \<Rightarrow> bool \<times> db" where
  "add_vote d sid u vt =
     (case find (vote_key sid u) (votes d) of
        Some _ \<Rightarrow> (False, d)
      | None \<Rightarrow> (True, d\<lparr>votes := votes d @
                 [\<lparr>vote_suggestion_id = sid, vote_user_id = u, vote_type = vt\<rparr>]\<rparr>))"

definition remove_vote :: "db \<Rightarrow> string \<Rightarrow> int \<Rightarrow> db" where
  "remove_vote d sid u = d\<lparr>votes := filter (\<lambda>r. \<not> vote_key sid u r) (votes d)\<rparr>"

text \<open>
  \<^verbatim>\<open>get_votes\<close>: the query groups the rows of the suggestion by vote type and counts each
  group; the loop then writes every group's count into a dictionary that starts with
  zero for both \<^verbatim>\<open>'upvote'\<close> and \<^verbatim>\<open>'downvote'\<close>.
\<close>

definition votes_grouped :: "db \<Rightarrow> string \<Rightarrow> (string \<times> nat) list" where
  "votes_grouped d sid =
     (let rows = filter (\<lambda>r. vote_suggestion_id r = sid) (votes d)
      in map (\<lambda>t. (t, length (filter (\<lambda>r. vote_type r = t) rows)))
           (remdups (map vote_type rows)))"

definition get_votes :: "db \<Rightarrow> string \<Rightarrow> (string \<rightharpoonup> nat)" where
  "get_votes d sid =
     fold (\<lambda>(vt, n) m. m(vt \<mapsto> n)) (votes_grouped d sid)
       [''upvote'' \<mapsto> 0, ''downvote'' \<mapsto> 0]"

definition get_user_vote :: "db \<Rightarrow> string \<Rightarrow> int \<Rightarrow> string option" where
  "get_user_vote d sid u = map_option vote_type (find (vote_key sid u) (votes d))"

text \<open>The number of vote rows of one type stored for a suggestion.\<close>

definition count_rows :: "db \<Rightarrow> string \<Rightarrow> string \<Rightarrow> nat" where
  "count_rows d sid vt =
     length (filter (\<lambda>r. vote_suggestion_id r = sid \<and> vote_type r = vt) (votes d))"

section \<open>Identifiers\<close>

text \<open>
  \<^verbatim>\<open>secrets.choice(seq)\<close> returns \<^verbatim>\<open>seq[k]\<close> for an index \<^verbatim>\<open>k\<close> below \<^verbatim>\<open>len(seq)\<close>
  taken from the operating system's random source. The random source is an argument:
  \<open>rnd n\<close> is the number drawn at the \<open>n\<close>-th call, reduced below the length.
\<close>

definition ascii_lowercase :: string where
  "ascii_lowercase = ''abcdefghijklmnopqrstuvwxyz''"

definition digits :: string where
  "digits = ''0123456789''"

definition secrets_choice :: "'a list \<Rightarrow> nat \<Rightarrow> 'a" where
  "secrets_choice seq r = seq ! (r mod length seq)"

definition generate_suggestion_id :: "(nat \<Rightarrow> nat) \<Rightarrow> string" where
  "generate_suggestion_id rnd =
     map (\<lambda>n. secrets_choice (ascii_lowercase @ digits) (rnd n)) [0..<8]"

section \<open>The public record\<close>

text \<open>
  The embed of a suggestion's message. Only what the code reads back or rewrites is
  kept: the colour and the list of fields. Field names are the fixed names the code
  uses; a field value is free text, the two vote counts of the results field, or the
  decision text (the reviewer, absent when anonymous, and the reason when one is given).
  The literal wording and the emoji of the rendered strings are left out.
\<close>

datatype color = Blue | Green | Red

datatype field_name = Description_field | Pros_field | Cons_field
  | Results_so_far | Results | Approved_field | Rejected_field

datatype field_value = Text string | Counts nat nat | Decided_by "int option" "string option"

record embed =
  embed_color :: color
  embed_fields :: "(field_name \<times> field_value) list"

text \<open>The value of the results field: \<^verbatim>\<open>votes["upvote"]\<close> and \<^verbatim>\<open>votes["downvote"]\<close>.\<close>

definition results_value :: "(string \<rightharpoonup> nat) \<Rightarrow> exn + field_value" where
  "results_value vs =
     (case vs ''upvote'' of
        None \<Rightarrow> Inl KeyError
      | Some up \<Rightarrow> (case vs ''downvote'' of
                     None \<Rightarrow> Inl KeyError
                   | Some down \<Rightarrow> Inr (Counts up down)))"

text \<open>
  The loop of \<^verbatim>\<open>update_embed\<close>: the first field named \<^verbatim>\<open>'Results so far:'\<close> or
  \<^verbatim>\<open>'Results:'\<close> is replaced, then the loop breaks.
\<close>

fun set_results_field ::
  "field_name \<Rightarrow> (string \<rightharpoonup> nat) \<Rightarrow> (field_name \<times> field_value) list
     \<Rightarrow> exn + (field_name \<times> field_value) list" where
  "set_results_field label vs [] = Inr []"
| "set_results_field label vs ((n, x) # fs) =
     (if n = Results_so_far \<or> n = Results
      then (case results_value vs of
              Inl e \<Rightarrow> Inl e
            | Inr v \<Rightarrow> Inr ((label, v) # fs))
      else (case set_results_field label vs fs of
              Inl e \<Rightarrow> Inl e
            | Inr fs' \<Rightarrow> Inr ((n, x) # fs')))"

text \<open>
  The loop of \<^verbatim>\<open>approve\<close> and \<^verbatim>\<open>reject\<close>: only a field still named
  \<^verbatim>\<open>'Results so far:'\<close> is replaced, by one named \<^verbatim>\<open>'Results:'\<close>; the votes are read
  inside the loop, when the field is found.
\<close>

fun close_results_field ::
  "db \<Rightarrow> string \<Rightarrow> (field_name \<times> field_value) list \<Rightarrow> exn + (field_name \<times> field_value) list" where
  "close_results_field d sid [] = Inr []"
| "close_results_field d sid ((n, x) # fs) =
     (if n = Results_so_far
      then (case results_value (get_votes d sid) of
              Inl e \<Rightarrow> Inl e
            | Inr v \<Rightarrow> Inr ((Results, v) # fs))
      else (case close_results_field d sid fs of
              Inl e \<Rightarrow> Inl e
            | Inr fs' \<Rightarrow> Inr ((n, x) # fs')))"

text \<open>The counts a message shows: the first results field of its first embed.\<close>

fun shown_counts :: "(field_name \<times> field_value) list \<Rightarrow> (nat \<times> nat) option" where
  "shown_counts [] = None"
| "shown_counts ((n, x) # fs) =
     (if n = Results_so_far \<or> n = Results
      then (case x of Counts up down \<Rightarrow> Some (up, down) | _ \<Rightarrow> None)
      else shown_counts fs)"

definition shown_tally :: "embed list \<Rightarrow> (nat \<times> nat) option" where
  "shown_tally es = (case es of [] \<Rightarrow> None | e # _ \<Rightarrow> shown_counts (embed_fields e))"

section \<open>Vote buttons\<close>

text \<open>
  What the bot answers to an interaction (\<^verbatim>\<open>interaction.response.send_message\<close>), one
  constructor for each message of the source. In the vocabulary of the specification,
  \<open>Suggestion_not_found\<close> is \<^verbatim>\<open>NotFound\<close>, \<open>Voting_closed\<close> is \<^verbatim>\<open>VotingClosed\<close>,
  \<open>Channel_not_set_up\<close> is \<^verbatim>\<open>NotConfigured\<close>; \<open>Upvoted\<close> and \<open>Downvoted\<close> are the
  action \<^verbatim>\<open>added\<close>, \<open>Upvote_removed\<close> and \<open>Downvote_removed\<close> are \<^verbatim>\<open>removed\<close>,
  \<open>Changed_to_upvote\<close> and \<open>Changed_to_downvote\<close> are \<^verbatim>\<open>switched\<close>.
\<close>

datatype reply =
    Suggestion_not_found | Voting_closed
  | Upvote_removed | Changed_to_upvote | Upvoted
  | Downvote_removed | Changed_to_downvote | Downvoted
  | Channel_not_set_up | Channel_not_found | Missing_permissions "string list"
  | Suggestion_submitted | Bot_lacks_permissions | Error_creating exn
  | Reviewer_role_not_set_up | Need_reviewer_role
  | Suggestion_approved string | Suggestion_rejected string

text \<open>
  A button press: the guild and the user of the interaction, the embeds of the message
  that carries the button, and what the platform will answer to the reply
  (\<^verbatim>\<open>interaction.response.send_message\<close>) and to \<^verbatim>\<open>message.edit\<close>: \<open>None\<close> when it
  accepts the call, the exception raised otherwise.
\<close>

record interaction =
  i_guild_id :: int
  i_user_id :: int
  i_message_embeds :: "embed list"
  i_send_message :: "exn option"
  i_message_edit :: "exn option"

text \<open>
  \<^verbatim>\<open>SuggestionView.update_embed\<close>. The result is the exception that leaves the method, or
  the embeds of the message afterwards: unchanged when the suggestion is gone or when the
  platform refuses the edit with \<^verbatim>\<open>Forbidden\<close>, which the source swallows.
\<close>

definition update_embed :: "db \<Rightarrow> string \<Rightarrow> interaction \<Rightarrow> exn + embed list" where
  "update_embed d sid i =
     (case get_suggestion d sid of
        None \<Rightarrow> Inr (i_message_embeds i)
      | Some s \<Rightarrow>
          (let vs = get_votes d sid in
           case i_message_embeds i of
             [] \<Rightarrow> Inl IndexError
           | e # _ \<Rightarrow>
               (let st = status s;
                    label = (if st = ''approved'' \<or> st = ''rejected'' then Results else Results_so_far)
                in case set_results_field label vs (embed_fields e) of
                     Inl x \<Rightarrow> Inl x
                   | Inr fs \<Rightarrow>
                       (let e1 = e\<lparr>embed_fields := fs\<rparr>;
                            e2 = (if st = ''approved'' then e1\<lparr>embed_color := Green\<rparr>
                                  else if st = ''rejected'' then e1\<lparr>embed_color := Red\<rparr>
                                  else e1)
                        in case i_message_edit i of
                             None \<Rightarrow> Inr [e2]
                           | Some Forbidden \<Rightarrow> Inr (i_message_embeds i)
                           | Some x \<Rightarrow> Inl x))))"

text \<open>
  The two button callbacks. Each returns the reply it sends, the store afterwards, and
  what becomes of the message. After the store is written the reply is awaited before
  \<^verbatim>\<open>update_embed\<close> is called: when the reply raises, the exception leaves the callback
  and \<^verbatim>\<open>update_embed\<close> does not run; otherwise the third component is the outcome of
  \<^verbatim>\<open>update_embed\<close>. On the three early returns the reply is the last action of the
  callback and the message is untouched.
\<close>

definition handle_upvote :: "db \<Rightarrow> string \<Rightarrow> interaction \<Rightarrow> reply \<times> db \<times> (exn + embed list)" where
  "handle_upvote d sid i =
     (case get_suggestion d sid of
        None \<Rightarrow> (Suggestion_not_found, d, Inr (i_message_embeds i))
      | Some s \<Rightarrow>
          if guild_id s \<noteq> i_guild_id i then (Suggestion_not_found, d, Inr (i_message_embeds i))
          else if status s \<noteq> ''pending'' then (Voting_closed, d, Inr (i_message_embeds i))
          else
            (let current_vote = get_user_vote d sid (i_user_id i);
                 (r, d') =
                   (if current_vote = Some ''upvote''
                    then (Upvote_removed, remove_vote d sid (i_user_id i))
                    else if current_vote = Some ''downvote''
                    then (Changed_to_upvote,
                          snd (add_vote (remove_vote d sid (i_user_id i)) sid (i_user_id i) ''upvote''))
                    else (Upvoted, snd (add_vote d sid (i_user_id i) ''upvote'')))
             in (r, d',
                 case i_send_message i of
                   Some e \<Rightarrow> Inl e
                 | None \<Rightarrow> update_embed d' sid i)))"

definition handle_downvote :: "db \<Rightarrow> string \<Rightarrow> interaction \<Rightarrow> reply \<times> db \<times> (exn + embed list)" where
  "handle_downvote d sid i =
     (case get_suggestion d sid of
        None \<Rightarrow> (Suggestion_not_found, d, Inr (i_message_embeds i))
      | Some s \<Rightarrow>
          if guild_id s \<noteq> i_guild_id i then (Suggestion_not_found, d, Inr (i_message_embeds i))
          else if status s \<noteq> ''pending'' then (Voting_closed, d, Inr (i_message_embeds i))
          else
            (let current_vote = get_user_vote d sid (i_user_id i);
                 (r, d') =
                   (if current_vote = Some ''downvote''
                    then (Downvote_removed, remove_vote d sid (i_user_id i))
                    else if current_vote = Some ''upvote''
                    then (Changed_to_downvote,
                          snd (add_vote (remove_vote d sid (i_user_id i)) sid (i_user_id i) ''downvote''))
                    else (Downvoted, snd (add_vote d sid (i_user_id i) ''downvote'')))
             in (r, d',
                 case i_send_message i of
                   Some e \<Rightarrow> Inl e
                 | None \<Rightarrow> update_embed d' sid i)))"

text \<open>
  A vote is cast by pressing one of the two buttons of a \<^verbatim>\<open>SuggestionView\<close>, whose
  callbacks are the two handlers.
\<close>

datatype direction = Up | Down

fun vote_name :: "direction \<Rightarrow> string" where
  "vote_name Up = ''upvote''"
| "vote_name Down = ''downvote''"

fun opposite :: "direction \<Rightarrow> direction" where
  "opposite Up = Down"
| "opposite Down = Up"

fun cast_vote :: "direction \<Rightarrow> db \<Rightarrow> string \<Rightarrow> interaction \<Rightarrow> reply \<times> db \<times> (exn + embed list)" where
  "cast_vote Up d sid i = handle_upvote d sid i"
| "cast_vote Down d sid i = handle_downvote d sid i"

text \<open>The three actions of the specification's vote result, read off the reply.\<close>

datatype vote_action = Added | Removed | Switched

fun action_of :: "reply \<Rightarrow> vote_action option" where
  "action_of Upvoted = Some Added"
| "action_of Downvoted = Some Added"
| "action_of Upvote_removed = Some Removed"
| "action_of Downvote_removed = Some Removed"
| "action_of Changed_to_upvote = Some Switched"
| "action_of Changed_to_downvote = Some Switched"
| "action_of _ = None"

section \<open>Submitting a suggestion\<close>

text \<open>
  The values of the modal's four text inputs and the image chosen with the command.
\<close>

record modal =
  title_input :: string
  description_input :: string
  pros_input :: string
  cons_input :: string
  modal_image_url :: "string option"

text \<open>
  What a modal submission meets outside the store: the guild and user of the
  interaction, the channels of the guild, the permissions the bot holds in a channel,
  the platform's answers to \<^verbatim>\<open>channel.send\<close> and \<^verbatim>\<open>message.create_thread\<close> (the new
  message's and thread's identifiers, or the exception raised), the clock and the
  random source.
\<close>

record submission =
  s_guild_id :: int
  s_user_id :: int
  s_guild_channels :: "int list"
  s_bot_permissions :: "int \<Rightarrow> string list"
  s_send :: "exn + int"
  s_create_thread :: "exn + int"
  s_now :: string
  s_rnd :: "nat \<Rightarrow> nat"

text \<open>
  \<^verbatim>\<open>check_missing_permissions\<close> lists the required permissions the bot does not hold
  (the source also rewrites each name for display).
\<close>

definition check_missing_permissions :: "string list \<Rightarrow> string list \<Rightarrow> string list" where
  "check_missing_permissions bot_perms required_perms =
     filter (\<lambda>perm_name. perm_name \<notin> set bot_perms) required_perms"

definition required_perms :: "string list" where
  "required_perms =
     [''send_messages'', ''embed_links'', ''create_public_threads'', ''send_messages_in_threads'']"

text \<open>The embed a submission posts: blue, with a results field showing 0 and 0.\<close>

definition submission_embed :: "modal \<Rightarrow> embed" where
  "submission_embed m =
     \<lparr>embed_color = Blue,
      embed_fields =
        [(Description_field, Text (description_input m))]
        @ (if pros_input m \<noteq> [] then [(Pros_field, Text (pros_input m))] else [])
        @ (if cons_input m \<noteq> [] then [(Cons_field, Text (cons_input m))] else [])
        @ [(Results_so_far, Counts 0 0)]\<rparr>"

text \<open>
  The two handlers of the \<^verbatim>\<open>try\<close> block of \<^verbatim>\<open>on_submit\<close>: \<^verbatim>\<open>discord.Forbidden\<close> and
  every other exception each end in a reply, and the store is as it was.
\<close>

definition submit_failed :: "exn \<Rightarrow> db \<Rightarrow> reply \<times> db" where
  "submit_failed e d = (if e = Forbidden then Bot_lacks_permissions else Error_creating e, d)"

definition on_submit :: "db \<Rightarrow> modal \<Rightarrow> submission \<Rightarrow> reply \<times> db" where
  "on_submit d m i =
     (case get_guild_settings d (s_guild_id i) of
        None \<Rightarrow> (Channel_not_set_up, d)
      | Some (channel_id, reviewer, blocked) \<Rightarrow>
          (case channel_id of
             None \<Rightarrow> (Channel_not_set_up, d)
           | Some c \<Rightarrow>
               if c = 0 then (Channel_not_set_up, d)
               else if c \<notin> set (s_guild_channels i) then (Channel_not_found, d)
               else
                 (let missing_perms = check_missing_permissions (s_bot_permissions i c) required_perms
                  in if missing_perms \<noteq> [] then (Missing_permissions missing_perms, d)
                     else
                       (let sid = generate_suggestion_id (s_rnd i) in
                        case s_send i of
                          Inl e \<Rightarrow> submit_failed e d
                        | Inr mid \<Rightarrow>
                            (case s_create_thread i of
                               Inl e \<Rightarrow> submit_failed e d
                             | Inr tid \<Rightarrow>
                                 (case save_suggestion d (s_now i) sid (s_guild_id i) (s_user_id i)
                                         mid (Some tid) (title_input m) (description_input m)
                                         (pros_input m) (cons_input m) (modal_image_url m) of
                                    Inl e \<Rightarrow> submit_failed e d
                                  | Inr d' \<Rightarrow> (Suggestion_submitted, d')))))))"

section \<open>Reviewer decisions\<close>

text \<open>
  What \<^verbatim>\<open>/approve\<close> and \<^verbatim>\<open>/reject\<close> meet outside the store: the guild and the user of
  the command, the user's roles and administrator permission, the roles and channels of
  the guild, and the platform's answers to \<^verbatim>\<open>channel.fetch_message\<close> (the embeds of the
  message), \<^verbatim>\<open>message.edit\<close>, \<^verbatim>\<open>guild.fetch_channel\<close> (whether the channel is a thread)
  and \<^verbatim>\<open>thread.edit\<close>.
\<close>

record command =
  c_guild_id :: int
  c_user_id :: int
  c_user_roles :: "int list"
  c_administrator :: bool
  c_guild_roles :: "int list"
  c_guild_channels :: "int list"
  c_fetch_message :: "int \<Rightarrow> exn + embed list"
  c_message_edit :: "exn option"
  c_fetch_channel :: "int \<Rightarrow> exn + bool"
  c_thread_edit :: "exn option"

text \<open>What a decision changes on the platform.\<close>

datatype platform_action = Message_edited int embed | Thread_locked int

text \<open>
  The inner \<^verbatim>\<open>try\<close> block, shared word for word by both commands: the thread is locked
  and archived; every exception is dropped, by the inner or by the outer handler.
\<close>

definition lock_thread :: "command \<Rightarrow> int option \<Rightarrow> platform_action list" where
  "lock_thread c tid =
     (case tid of
        None \<Rightarrow> []
      | Some t \<Rightarrow>
          if t = 0 then []
          else (case c_fetch_channel c t of
                  Inl e \<Rightarrow> []
                | Inr is_thread \<Rightarrow>
                    if is_thread
                    then (case c_thread_edit c of None \<Rightarrow> [Thread_locked t] | Some e \<Rightarrow> [])
                    else []))"

text \<open>The decision text: the reviewer unless anonymous, and the reason when it is not empty.\<close>

definition decision_text :: "command \<Rightarrow> string option \<Rightarrow> bool \<Rightarrow> field_value" where
  "decision_text c reason anonymous =
     Decided_by (if anonymous then None else Some (c_user_id c))
       (case reason of None \<Rightarrow> None | Some r \<Rightarrow> if r = [] then None else Some r)"

text \<open>
  The outer \<^verbatim>\<open>try\<close> block of a decision, entered when the configured channel exists:
  any exception in it ends the rendering and is dropped.
\<close>

definition render_decision ::
  "db \<Rightarrow> command \<Rightarrow> string \<Rightarrow> suggestion \<Rightarrow> color \<Rightarrow> field_name \<Rightarrow> string option \<Rightarrow> bool
     \<Rightarrow> platform_action list" where
  "render_decision d c sid s col name reason anonymous =
     (case c_fetch_message c (message_id s) of
        Inl e \<Rightarrow> []
      | Inr [] \<Rightarrow> []
      | Inr (e # _) \<Rightarrow>
          (case close_results_field d sid (embed_fields e) of
             Inl x \<Rightarrow> []
           | Inr fs \<Rightarrow>
               (let e' = e\<lparr>embed_color := col,
                          embed_fields := fs @ [(name, decision_text c reason anonymous)]\<rparr>
                in case c_message_edit c of
                     Some x \<Rightarrow> []
                   | None \<Rightarrow> Message_edited (message_id s) e' # lock_thread c (thread_id s))))"

definition channel_of :: "command \<Rightarrow> int option \<Rightarrow> bool" where
  "channel_of c channel_id =
     (case channel_id of None \<Rightarrow> False | Some ch \<Rightarrow> ch \<in> set (c_guild_channels c))"

definition approve ::
  "db \<Rightarrow> command \<Rightarrow> string \<Rightarrow> string option \<Rightarrow> bool \<Rightarrow> reply \<times> db \<times> platform_action list" where
  "approve d c sid reason anonymous =
     (case get_guild_settings d (c_guild_id c) of
        None \<Rightarrow> (Reviewer_role_not_set_up, d, [])
      | Some (channel_id, reviewer, blocked) \<Rightarrow>
          (case reviewer of
             None \<Rightarrow> (Reviewer_role_not_set_up, d, [])
           | Some role \<Rightarrow>
               if role = 0 then (Reviewer_role_not_set_up, d, [])
               else if (role \<notin> set (c_guild_roles c) \<or> role \<notin> set (c_user_roles c))
                       \<and> \<not> c_administrator c
               then (Need_reviewer_role, d, [])
               else
                 (case get_suggestion d sid of
                    None \<Rightarrow> (Suggestion_not_found, d, [])
                  | Some s \<Rightarrow>
                      if guild_id s \<noteq> c_guild_id c then (Suggestion_not_found, d, [])
                      else
                        (let d' = update_suggestion_status d sid ''approved'' reason anonymous
                         in (Suggestion_approved sid, d',
                             if channel_of c channel_id
                             then render_decision d' c sid s Green Approved_field reason anonymous
                             else [])))))"

definition reject ::
  "db \<Rightarrow> command \<Rightarrow> string \<Rightarrow> string option \<Rightarrow> bool \<Rightarrow> reply \<times> db \<times> platform_action list" where
  "reject d c sid reason anonymous =
     (case get_guild_settings d (c_guild_id c) of
        None \<Rightarrow> (Reviewer_role_not_set_up, d, [])
      | Some (channel_id, reviewer, blocked) \<Rightarrow>
          (case reviewer of
             None \<Rightarrow> (Reviewer_role_not_set_up, d, [])
           | Some role \<Rightarrow>
               if role = 0 then (Reviewer_role_not_set_up, d, [])
               else if (role \<notin> set (c_guild_roles c) \<or> role \<notin> set (c_user_roles c))
                       \<and> \<not> c_administrator c
               then (Need_reviewer_role, d, [])
               else
                 (case get_suggestion d sid of
                    None \<Rightarrow> (Suggestion_not_found, d, [])
                  | Some s \<Rightarrow>
                      if guild_id s \<noteq> c_guild_id c then (Suggestion_not_found, d, [])
                      else
                        (let d' = update_suggestion_status d sid ''rejected'' reason anonymous
                         in (Suggestion_rejected sid, d',
                             if channel_of c channel_id
                             then render_decision d' c sid s Red Rejected_field reason anonymous
                             else [])))))"

text \<open>A decision is one of the two commands.\<close>

datatype verdict = Approve | Reject

fun decide ::
  "verdict \<Rightarrow> db \<Rightarrow> command \<Rightarrow> string \<Rightarrow> string option \<Rightarrow> bool \<Rightarrow> reply \<times> db \<times> platform_action list" where
  "decide Approve d c sid reason anonymous = approve d c sid reason anonymous"
| "decide Reject d c sid reason anonymous = reject d c sid reason anonymous"

fun verdict_status :: "verdict \<Rightarrow> string" where
  "verdict_status Approve = ''approved''"
| "verdict_status Reject = ''rejected''"

fun verdict_reply :: "verdict \<Rightarrow> string \<Rightarrow> reply" where
  "verdict_reply Approve sid = Suggestion_approved sid"
| "verdict_reply Reject sid = Suggestion_rejected sid"

text \<open>
  Whether the command passes the reviewer checks that come before the lookup of the
  suggestion: a reviewer role is configured, and the user holds it or is an administrator.
\<close>

definition reviewer_ok :: "db \<Rightarrow> command \<Rightarrow> bool" where
  "reviewer_ok d c =
     (case get_guild_settings d (c_guild_id c) of
        None \<Rightarrow> False
      | Some (channel_id, reviewer, blocked) \<Rightarrow>
          (case reviewer of
             None \<Rightarrow> False
           | Some role \<Rightarrow>
               role \<noteq> 0 \<and>
               ((role \<in> set (c_guild_roles c) \<and> role \<in> set (c_user_roles c)) \<or> c_administrator c)))"

section \<open>Startup\<close>

text \<open>
  \<^verbatim>\<open>init_suggestions_db\<close> creates the three tables where they do not exist: a store file
  that is not there yet (\<open>None\<close>) becomes the empty store, an existing one keeps its rows.
\<close>

definition empty_db :: db where
  "empty_db = \<lparr>suggestion_guild_settings = [], suggestions = [], votes = []\<rparr>"

definition init_suggestions_db :: "db option \<Rightarrow> db" where
  "init_suggestions_db file = (case file of None \<Rightarrow> empty_db | Some d \<Rightarrow> d)"

text \<open>The query of \<^verbatim>\<open>on_ready\<close>: the identifiers of the rows whose status is \<^verbatim>\<open>'pending'\<close>.\<close>

definition pending_suggestion_ids :: "db \<Rightarrow> string list" where
  "pending_suggestion_ids d =
     map suggestion_id (filter (\<lambda>r. status r = ''pending'') (suggestions d))"

text \<open>
  \<^verbatim>\<open>on_ready\<close>: an exception of \<^verbatim>\<open>init_game_db\<close> (the game's own database, an argument
  here) leaves the handler before anything else; otherwise a \<^verbatim>\<open>SuggestionView\<close> is
  registered for each pending identifier. \<^verbatim>\<open>bot.add_view\<close> may raise, which the source
  drops: \<open>add_view_ok\<close> tells for which identifiers it does not. The result is the store
  and the identifiers of the registered views.
\<close>

definition on_ready :: "exn option \<Rightarrow> db option \<Rightarrow> (string \<Rightarrow> bool) \<Rightarrow> exn + (db \<times> string list)" where
  "on_ready init_game_db file add_view_ok =
     (case init_game_db of
        Some e \<Rightarrow> Inl e
      | None \<Rightarrow>
          (let d = init_suggestions_db file
           in Inr (d, filter add_view_ok (pending_suggestion_ids d))))"

section \<open>Histories of the store\<close>

text \<open>
  Every write of the program to the store is one of these seven calls. A history is a
  list of them, run from the empty store; a failed insert changes nothing.
\<close>

datatype store_op =
    Set_suggestion_channel int int
  | Set_reviewer_role int int
  | Set_blocked_role int int
  | Save_suggestion string string int int int "int option" string string string string "string option"
  | Update_suggestion_status string string "string option" bool
  | Add_vote string int string
  | Remove_vote string int

fun store_step :: "db \<Rightarrow> store_op \<Rightarrow> db" where
  "store_step d (Set_suggestion_channel g ch) = set_suggestion_channel d g ch"
| "store_step d (Set_reviewer_role g r) = set_reviewer_role d g r"
| "store_step d (Set_blocked_role g r) = set_blocked_role d g r"
| "store_step d (Save_suggestion now sid g u mid tid ttl descr prs cns img) =
     (case save_suggestion d now sid g u mid tid ttl descr prs cns img of
        Inl e \<Rightarrow> d
      | Inr d' \<Rightarrow> d')"
| "store_step d (Update_suggestion_status sid st reason anonymous) =
     update_suggestion_status d sid st reason anonymous"
| "store_step d (Add_vote sid u vt) = snd (add_vote d sid u vt)"
| "store_step d (Remove_vote sid u) = remove_vote d sid u"

definition run_store :: "store_op list \<Rightarrow> db" where
  "run_store ops = foldl store_step empty_db ops"

section \<open>Comparison store and sample data\<close>

text \<open>The store with every row of one suggestion identifier taken out.\<close>

definition without :: "db \<Rightarrow> string \<Rightarrow> db" where
  "without d sid = d\<lparr>suggestions := filter (\<lambda>r. suggestion_id r \<noteq> sid) (suggestions d)\<rparr>"

text \<open>
  A small store used to run the definitions: guild 1 with channel 5 and reviewer role 7,
  and one pending suggestion posted as message 100 with thread 200.
\<close>

definition sample_row :: suggestion where
  "sample_row =
     \<lparr>suggestion_id = ''k3x9q2ab'', guild_id = 1, user_id = 10, message_id = 100,
      thread_id = Some 200, title = ''Dark mode'', description = ''Add a dark theme'',
      pros = ''Easier on the eyes'', cons = ''More work'', image_url = None,
      status = ''pending'', created_at = ''2024-01-01T00:00:00+00:00'',
      decision_reason = None, decided_anonymously = 0\<rparr>"

definition sample_db :: db where
  "sample_db =
     \<lparr>suggestion_guild_settings =
        [\<lparr>gs_guild_id = 1, suggestion_channel_id = Some 5, reviewer_role_id = Some 7,
          blocked_role_id = None\<rparr>],
      suggestions = [sample_row],
      votes = []\<rparr>"

definition sample_embed :: embed where
  "sample_embed =
     \<lparr>embed_color = Blue,
      embed_fields = [(Description_field, Text ''Add a dark theme''), (Results_so_far, Counts 0 0)]\<rparr>"

text \<open>User 11 presses a button in guild 1; the platform accepts the edit.\<close>

definition sample_press :: interaction where
  "sample_press =
     \<lparr>i_guild_id = 1, i_user_id = 11, i_message_embeds = [sample_embed],
      i_send_message = None, i_message_edit = None\<rparr>"

text \<open>The same press when the platform refuses the edit of the message.\<close>

definition refused_press :: interaction where
  "refused_press = sample_press\<lparr>i_message_edit := Some Forbidden\<rparr>"

text \<open>The same press when the reply cannot be delivered.\<close>

definition unanswered_press :: interaction where
  "unanswered_press = sample_press\<lparr>i_send_message := Some HTTPException\<rparr>"

text \<open>The same press arriving from guild 2.\<close>

definition foreign_press :: interaction where
  "foreign_press =
     \<lparr>i_guild_id = 2, i_user_id = 11, i_message_embeds = [sample_embed],
      i_send_message = None, i_message_edit = None\<rparr>"

text \<open>
  User 12, holder of the reviewer role, runs a command in guild 1 while the platform
  no longer has the message (\<^verbatim>\<open>fetch_message\<close> raises \<^verbatim>\<open>NotFound\<close>).
\<close>

definition sample_command :: command where
  "sample_command =
     \<lparr>c_guild_id = 1, c_user_id = 12, c_user_roles = [7], c_administrator = False,
      c_guild_roles = [7], c_guild_channels = [5],
      c_fetch_message = (\<lambda>_. Inl NotFound), c_message_edit = None,
      c_fetch_channel = (\<lambda>_. Inl Forbidden), c_thread_edit = None\<rparr>"

text \<open>An administrator of guild 2, where role 7 is the reviewer role as well.\<close>

definition foreign_command :: command where
  "foreign_command =
     \<lparr>c_guild_id = 2, c_user_id = 13, c_user_roles = [], c_administrator = True,
      c_guild_roles = [7], c_guild_channels = [6],
      c_fetch_message = (\<lambda>_. Inl NotFound), c_message_edit = None,
      c_fetch_channel = (\<lambda>_. Inl Forbidden), c_thread_edit = None\<rparr>"

text \<open>The sample store with guild 2 configured too, and with votes of users 11 and 14.\<close>

definition two_guild_db :: db where
  "two_guild_db =
     sample_db\<lparr>suggestion_guild_settings :=
       suggestion_guild_settings sample_db @
         [\<lparr>gs_guild_id = 2, suggestion_channel_id = Some 6, reviewer_role_id = Some 7,
           blocked_role_id = None\<rparr>]\<rparr>"

definition voted_db :: db where
  "voted_db =
     sample_db\<lparr>votes :=
       [\<lparr>vote_suggestion_id = ''k3x9q2ab'', vote_user_id = 11, vote_type = ''upvote''\<rparr>,
        \<lparr>vote_suggestion_id = ''k3x9q2ab'', vote_user_id = 14, vote_type = ''downvote''\<rparr>]\<rparr>"

text \<open>The sample store after the suggestion was approved with a reason.\<close>

definition approved_db :: db where
  "approved_db =
     voted_db\<lparr>suggestions :=
       [sample_row\<lparr>status := ''approved'', decision_reason := Some ''good idea''\<rparr>]\<rparr>"

text \<open>
  A history in which two suggestions are saved and the first one is then approved.
\<close>

definition restart_history :: "store_op list" where
  "restart_history =
     [Set_suggestion_channel 1 5,
      Save_suggestion ''2024-01-01T00:00:00+00:00'' ''k3x9q2ab'' 1 10 100 (Some 200)
        ''Dark mode'' ''Add a dark theme'' ''Easier on the eyes'' ''More work'' None,
      Save_suggestion ''2024-01-02T00:00:00+00:00'' ''p7m4z1cd'' 1 11 101 (Some 201)
        ''Polls'' ''Add polls'' ''Quick feedback'' ''Noise'' None,
      Update_suggestion_status ''k3x9q2ab'' ''approved'' (Some ''good idea'') False]"




section \<open>The tally\<close>

lemma fold_upd_lookup:
  "fold (\<lambda>(k, v) m. m(k \<mapsto> v)) kvs m0 = m0 ++ map_of (rev kvs)"
  by (induction kvs arbitrary: m0) (auto simp: map_add_def fun_eq_iff split: option.splits)

lemma map_of_counts:
  "map_of (rev (map (\<lambda>t. (t, f t)) ts)) t = (if t \<in> set ts then Some (f t) else None)"
  by (induction ts) (auto simp: map_add_def split: option.splits)

lemma count_absent:
  "t \<notin> set (map vote_type rows) \<Longrightarrow> length (filter (\<lambda>r. vote_type r = t) rows) = 0"
  by (induction rows) auto

lemma count_rows_alt:
  "count_rows d sid t =
     length (filter (\<lambda>r. vote_type r = t) (filter (\<lambda>r. vote_suggestion_id r = sid) (votes d)))"
  by (simp add: count_rows_def conj_commute)

lemma grouped_lookup:
  assumes "m0 t = Some 0"
  shows "(m0 ++ map_of (rev (map (\<lambda>t. (t, length (filter (\<lambda>r. vote_type r = t) rows)))
            (remdups (map vote_type rows))))) t
         = Some (length (filter (\<lambda>r. vote_type r = t) rows))"
proof (cases "t \<in> set (map vote_type rows)")
  case True
  then show ?thesis by (simp add: map_add_def map_of_counts)
next
  case False
  then have "length (filter (\<lambda>r. vote_type r = t) rows) = 0" by (rule count_absent)
  with False assms show ?thesis by (simp add: map_add_def map_of_counts)
qed

lemma get_votes_count:
  "t = ''upvote'' \<or> t = ''downvote'' \<Longrightarrow> get_votes d sid t = Some (count_rows d sid t)"
  unfolding get_votes_def votes_grouped_def Let_def fold_upd_lookup count_rows_alt
  by (rule grouped_lookup) auto

lemma results_value_get_votes:
  "results_value (get_votes d sid) =
     Inr (Counts (count_rows d sid ''upvote'') (count_rows d sid ''downvote''))"
  by (simp add: results_value_def get_votes_count)

text \<open>
  Claim C4. In every state of the store and for every suggestion identifier, the
  dictionary returned by \<^verbatim>\<open>get_votes\<close> holds under \<^verbatim>\<open>'upvote'\<close> the number of vote rows
  of that suggestion with type \<^verbatim>\<open>'upvote'\<close> and under \<^verbatim>\<open>'downvote'\<close> the number of rows
  with type \<^verbatim>\<open>'downvote'\<close>; both lookups succeed, so the rendered counts are never a
  \<^verbatim>\<open>KeyError\<close>; and for a suggestion without vote rows the dictionary is exactly
  \<^verbatim>\<open>{'upvote': 0, 'downvote': 0}\<close>.
\<close>

theorem get_votes_counts_rows:
  "get_votes d sid ''upvote'' = Some (count_rows d sid ''upvote'') \<and>
   get_votes d sid ''downvote'' = Some (count_rows d sid ''downvote'') \<and>
   results_value (get_votes d sid) =
     Inr (Counts (count_rows d sid ''upvote'') (count_rows d sid ''downvote'')) \<and>
   (filter (\<lambda>r. vote_suggestion_id r = sid) (votes d) = [] \<longrightarrow>
      get_votes d sid = [''upvote'' \<mapsto> 0, ''downvote'' \<mapsto> 0])"
  by (simp add: get_votes_count results_value_get_votes)
     (simp add: get_votes_def votes_grouped_def)

theorem get_votes_counts_rows_witness:
  "get_votes voted_db ''k3x9q2ab'' ''upvote'' = Some 1 \<and>
   get_votes voted_db ''k3x9q2ab'' ''downvote'' = Some 1 \<and>
   results_value (get_votes voted_db ''k3x9q2ab'') = Inr (Counts 1 1) \<and>
   filter (\<lambda>r. vote_suggestion_id r = ''zzzzzzzz'') (votes voted_db) = [] \<and>
   get_votes voted_db ''zzzzzzzz'' = [''upvote'' \<mapsto> 0, ''downvote'' \<mapsto> 0]"
  using get_votes_counts_rows [of voted_db "''k3x9q2ab''"]
    get_votes_counts_rows [of voted_db "''zzzzzzzz''"]
  by (simp add: count_rows_def voted_db_def sample_db_def)

section \<open>Casting a vote\<close>

lemma set_results_field_shown:
  assumes "results_value vs = Inr (Counts up down)" and "shown_counts fs \<noteq> None"
  shows "\<exists>fs'. set_results_field label vs fs = Inr fs' \<and>
           (label = Results_so_far \<or> label = Results \<longrightarrow> shown_counts fs' = Some (up, down))"
proof -
  from assms(2) show ?thesis
  proof (induction fs)
    case Nil
    then show ?case by simp
  next
    case (Cons f fs)
    obtain n x where f: "f = (n, x)" by (cases f)
    show ?case
    proof (cases "n = Results_so_far \<or> n = Results")
      case True
      with f assms(1) show ?thesis by auto
    next
      case False
      with f Cons.prems have "shown_counts fs \<noteq> None" by simp
      from Cons.IH [OF this] obtain fs' where
        "set_results_field label vs fs = Inr fs'"
        "label = Results_so_far \<or> label = Results \<longrightarrow> shown_counts fs' = Some (up, down)"
        by blast
      with f False show ?thesis by auto
    qed
  qed
qed

lemma get_suggestion_remove_vote [simp]:
  "get_suggestion (remove_vote d sid u) x = get_suggestion d x"
  by (simp add: get_suggestion_def remove_vote_def)

lemma get_suggestion_add_vote [simp]:
  "get_suggestion (snd (add_vote d sid u vt)) x = get_suggestion d x"
  by (simp add: get_suggestion_def add_vote_def split: option.splits)

lemma update_embed_shown:
  assumes "get_suggestion d sid = Some s" and "i_message_edit i = None"
    and "shown_tally (i_message_embeds i) \<noteq> None"
  shows "\<exists>es. update_embed d sid i = Inr es \<and>
           shown_tally es = Some (count_rows d sid ''upvote'', count_rows d sid ''downvote'')"
proof -
  from assms(3) obtain e es where es: "i_message_embeds i = e # es"
    and sc: "shown_counts (embed_fields e) \<noteq> None"
    by (auto simp: shown_tally_def split: list.splits)
  define label where "label = (if status s = ''approved'' \<or> status s = ''rejected'' then Results else Results_so_far)"
  have lab: "label = Results_so_far \<or> label = Results" by (simp add: label_def)
  from set_results_field_shown [OF results_value_get_votes sc, where label = label] lab
  obtain fs' where fs': "set_results_field label (get_votes d sid) (embed_fields e) = Inr fs'"
    and sh: "shown_counts fs' = Some (count_rows d sid ''upvote'', count_rows d sid ''downvote'')"
    by blast
  show ?thesis
    using assms(1,2) es fs' sh
    by (simp add: update_embed_def Let_def shown_tally_def label_def)
qed

lemma set_results_field_total:
  assumes "results_value vs = Inr v"
  shows "\<exists>fs'. set_results_field label vs fs = Inr fs'"
proof (induction fs)
  case Nil
  show ?case by simp
next
  case (Cons f fs)
  obtain n x where f: "f = (n, x)" by (cases f)
  from Cons.IH obtain fs' where "set_results_field label vs fs = Inr fs'" by blast
  with f assms show ?case by auto
qed

lemma update_embed_refused:
  assumes "get_suggestion d sid = Some s" and "i_message_edit i = Some Forbidden"
    and "i_message_embeds i \<noteq> []"
  shows "update_embed d sid i = Inr (i_message_embeds i)"
proof -
  from assms(3) obtain e es where es: "i_message_embeds i = e # es"
    by (cases "i_message_embeds i") auto
  define label where
    "label = (if status s = ''approved'' \<or> status s = ''rejected'' then Results else Results_so_far)"
  from set_results_field_total [OF results_value_get_votes, of label d sid "embed_fields e"]
  obtain fs' where fs': "set_results_field label (get_votes d sid) (embed_fields e) = Inr fs'"
    by blast
  show ?thesis
    using assms(1,2) es fs' by (simp add: update_embed_def Let_def label_def)
qed

lemma find_filter_not: "find P (filter (\<lambda>x. \<not> P x) xs) = None"
  by (simp add: find_None_iff)

lemma votes_remove_vote: "votes (remove_vote d sid u) = filter (\<lambda>x. \<not> vote_key sid u x) (votes d)"
  by (simp add: remove_vote_def)

lemma votes_add_vote_fresh:
  "find (vote_key sid u) (votes d) = None \<Longrightarrow>
   votes (snd (add_vote d sid u vt)) =
     votes d @ [\<lparr>vote_suggestion_id = sid, vote_user_id = u, vote_type = vt\<rparr>]"
  by (simp add: add_vote_def)

lemma handle_upvote_table:
  assumes "get_suggestion d sid = Some s" and "guild_id s = i_guild_id i"
    and "status s = ''pending''"
  shows "handle_upvote d sid i =
     (let u = i_user_id i; c = get_user_vote d sid u;
          d' = (if c = Some ''upvote'' then remove_vote d sid u
                else if c = Some ''downvote'' then snd (add_vote (remove_vote d sid u) sid u ''upvote'')
                else snd (add_vote d sid u ''upvote''))
      in (if c = Some ''upvote'' then Upvote_removed
          else if c = Some ''downvote'' then Changed_to_upvote else Upvoted,
          d', case i_send_message i of Some e \<Rightarrow> Inl e | None \<Rightarrow> update_embed d' sid i))"
  using assms by (simp add: handle_upvote_def Let_def)

lemma handle_downvote_table:
  assumes "get_suggestion d sid = Some s" and "guild_id s = i_guild_id i"
    and "status s = ''pending''"
  shows "handle_downvote d sid i =
     (let u = i_user_id i; c = get_user_vote d sid u;
          d' = (if c = Some ''downvote'' then remove_vote d sid u
                else if c = Some ''upvote'' then snd (add_vote (remove_vote d sid u) sid u ''downvote'')
                else snd (add_vote d sid u ''downvote''))
      in (if c = Some ''downvote'' then Downvote_removed
          else if c = Some ''upvote'' then Changed_to_downvote else Downvoted,
          d', case i_send_message i of Some e \<Rightarrow> Inl e | None \<Rightarrow> update_embed d' sid i))"
  using assms by (simp add: handle_downvote_def Let_def)

lemma cast_vote_table:
  assumes "get_suggestion d sid = Some s" and "guild_id s = i_guild_id i"
    and "status s = ''pending''"
  shows "cast_vote dir d sid i =
     (let u = i_user_id i; c = get_user_vote d sid u;
          d' = (if c = Some (vote_name dir) then remove_vote d sid u
                else if c = Some (vote_name (opposite dir))
                then snd (add_vote (remove_vote d sid u) sid u (vote_name dir))
                else snd (add_vote d sid u (vote_name dir)))
      in (fst (cast_vote dir d sid i), d',
          case i_send_message i of Some e \<Rightarrow> Inl e | None \<Rightarrow> update_embed d' sid i))"
  using assms
  by (cases dir)
     (simp_all add: handle_upvote_table handle_downvote_table Let_def split: option.splits)

lemma cast_vote_action:
  assumes "get_suggestion d sid = Some s" and "guild_id s = i_guild_id i"
    and "status s = ''pending''"
  shows "action_of (fst (cast_vote dir d sid i)) =
     (let c = get_user_vote d sid (i_user_id i)
      in if c = Some (vote_name dir) then Some Removed
         else if c = Some (vote_name (opposite dir)) then Some Switched else Some Added)"
  using assms by (cases dir) (simp_all add: handle_upvote_table handle_downvote_table Let_def)

lemma get_suggestion_cast_vote:
  "get_suggestion (fst (snd (cast_vote dir d sid i))) x = get_suggestion d x"
  by (cases dir) (auto simp: handle_upvote_def handle_downvote_def Let_def split: option.splits)

lemma get_user_vote_None: "get_user_vote d sid u = None \<longleftrightarrow> find (vote_key sid u) (votes d) = None"
  by (simp add: get_user_vote_def)

text \<open>
  Claim C2, as the code has it. A button press on a pending suggestion, made in the
  suggestion's guild, follows the decision table on the voter's current vote: equal to
  the requested type, the voter's row is deleted and the reply is a removal; the opposite
  type, the row is deleted and a row of the requested type inserted, and the reply is a
  switch; no vote, a row is inserted and the reply is an addition. The updated tally is
  reported on three conditions: the reply is delivered, the message has an embed with a
  results field, and the platform accepts the edit; the results field then shows the
  counts of the store as just changed. When the platform refuses the edit with
  \<^verbatim>\<open>Forbidden\<close> the message keeps its embeds, and when the reply raises, the exception
  leaves the callback before the message is touched.
\<close>

theorem cast_vote_decision_table:
  assumes "get_suggestion d sid = Some s" and "guild_id s = i_guild_id i"
    and "status s = ''pending''"
    and "cast_vote dir d sid i = (r, d', out)"
  shows "(get_user_vote d sid (i_user_id i) = Some (vote_name dir) \<longrightarrow>
            action_of r = Some Removed \<and>
            votes d' = filter (\<lambda>x. \<not> vote_key sid (i_user_id i) x) (votes d)) \<and>
         (get_user_vote d sid (i_user_id i) = Some (vote_name (opposite dir)) \<longrightarrow>
            action_of r = Some Switched \<and>
            votes d' = filter (\<lambda>x. \<not> vote_key sid (i_user_id i) x) (votes d) @
              [\<lparr>vote_suggestion_id = sid, vote_user_id = i_user_id i, vote_type = vote_name dir\<rparr>]) \<and>
         (get_user_vote d sid (i_user_id i) = None \<longrightarrow>
            action_of r = Some Added \<and>
            votes d' = votes d @
              [\<lparr>vote_suggestion_id = sid, vote_user_id = i_user_id i, vote_type = vote_name dir\<rparr>]) \<and>
         (i_send_message i = None \<and> i_message_edit i = None \<and>
          shown_tally (i_message_embeds i) \<noteq> None \<longrightarrow>
            (\<exists>es. out = Inr es \<and>
               shown_tally es = Some (count_rows d' sid ''upvote'', count_rows d' sid ''downvote''))) \<and>
         (i_send_message i = None \<and> i_message_edit i = Some Forbidden \<and>
          i_message_embeds i \<noteq> [] \<longrightarrow>
            out = Inr (i_message_embeds i)) \<and>
         (\<forall>e. i_send_message i = Some e \<longrightarrow> out = Inl e)"
proof -
  have r: "r = fst (cast_vote dir d sid i)" and d': "d' = fst (snd (cast_vote dir d sid i))"
    and out: "out = snd (snd (cast_vote dir d sid i))"
    using assms(4) by simp_all
  have act: "action_of r =
     (let c = get_user_vote d sid (i_user_id i)
      in if c = Some (vote_name dir) then Some Removed
         else if c = Some (vote_name (opposite dir)) then Some Switched else Some Added)"
    unfolding r by (rule cast_vote_action [OF assms(1-3)])
  have tab: "(r, d', out) =
     (let u = i_user_id i; c = get_user_vote d sid u;
          d' = (if c = Some (vote_name dir) then remove_vote d sid u
                else if c = Some (vote_name (opposite dir))
                then snd (add_vote (remove_vote d sid u) sid u (vote_name dir))
                else snd (add_vote d sid u (vote_name dir)))
      in (fst (cast_vote dir d sid i), d',
          case i_send_message i of Some e \<Rightarrow> Inl e | None \<Rightarrow> update_embed d' sid i))"
    using cast_vote_table [OF assms(1-3), of dir] assms(4) by simp
  have neq: "vote_name dir \<noteq> vote_name (opposite dir)" by (cases dir) simp_all
  have c1: "get_user_vote d sid (i_user_id i) = Some (vote_name dir) \<Longrightarrow>
            votes d' = filter (\<lambda>x. \<not> vote_key sid (i_user_id i) x) (votes d)"
    using tab by (simp add: Let_def votes_remove_vote)
  have c2: "get_user_vote d sid (i_user_id i) = Some (vote_name (opposite dir)) \<Longrightarrow>
            votes d' = filter (\<lambda>x. \<not> vote_key sid (i_user_id i) x) (votes d) @
              [\<lparr>vote_suggestion_id = sid, vote_user_id = i_user_id i, vote_type = vote_name dir\<rparr>]"
    using tab neq
    by (simp add: Let_def votes_add_vote_fresh votes_remove_vote find_filter_not)
  have c3: "get_user_vote d sid (i_user_id i) = None \<Longrightarrow>
            votes d' = votes d @
              [\<lparr>vote_suggestion_id = sid, vote_user_id = i_user_id i, vote_type = vote_name dir\<rparr>]"
  proof -
    assume c: "get_user_vote d sid (i_user_id i) = None"
    then have f: "find (vote_key sid (i_user_id i)) (votes d) = None"
      by (simp add: get_user_vote_None)
    from tab c have "d' = snd (add_vote d sid (i_user_id i) (vote_name dir))"
      by (simp add: Let_def)
    then show ?thesis by (simp add: votes_add_vote_fresh [OF f])
  qed
  have out': "out = (case i_send_message i of Some e \<Rightarrow> Inl e | None \<Rightarrow> update_embed d' sid i)"
    using tab by (auto simp: Let_def split: option.splits)
  have s': "get_suggestion d' sid = Some s"
    unfolding d' by (simp add: get_suggestion_cast_vote assms(1))
  have c4: "i_send_message i = None \<and> i_message_edit i = None \<and>
            shown_tally (i_message_embeds i) \<noteq> None \<Longrightarrow>
            \<exists>es. out = Inr es \<and>
               shown_tally es = Some (count_rows d' sid ''upvote'', count_rows d' sid ''downvote'')"
    unfolding out' using update_embed_shown [OF s'] by auto
  have c5: "i_send_message i = None \<and> i_message_edit i = Some Forbidden \<and>
            i_message_embeds i \<noteq> [] \<Longrightarrow> out = Inr (i_message_embeds i)"
    unfolding out' using update_embed_refused [OF s'] by auto
  have c6: "\<forall>e. i_send_message i = Some e \<longrightarrow> out = Inl e"
    unfolding out' by simp
  show ?thesis
    using act neq c1 c2 c3 c4 c5 c6 by (simp add: Let_def)
qed

theorem cast_vote_decision_table_witness:
  "get_user_vote sample_db ''k3x9q2ab'' 11 = None \<and>
   cast_vote Up sample_db ''k3x9q2ab'' sample_press =
     (Upvoted,
      sample_db\<lparr>votes := [\<lparr>vote_suggestion_id = ''k3x9q2ab'', vote_user_id = 11, vote_type = ''upvote''\<rparr>]\<rparr>,
      Inr [sample_embed\<lparr>embed_fields :=
             [(Description_field, Text ''Add a dark theme''), (Results_so_far, Counts 1 0)]\<rparr>]) \<and>
   get_user_vote voted_db ''k3x9q2ab'' 11 = Some ''upvote'' \<and>
   action_of (fst (cast_vote Up voted_db ''k3x9q2ab'' sample_press)) = Some Removed \<and>
   votes (fst (snd (cast_vote Up voted_db ''k3x9q2ab'' sample_press))) =
     [\<lparr>vote_suggestion_id = ''k3x9q2ab'', vote_user_id = 14, vote_type = ''downvote''\<rparr>] \<and>
   action_of (fst (cast_vote Down voted_db ''k3x9q2ab'' sample_press)) = Some Switched \<and>
   votes (fst (snd (cast_vote Down voted_db ''k3x9q2ab'' sample_press))) =
     [\<lparr>vote_suggestion_id = ''k3x9q2ab'', vote_user_id = 14, vote_type = ''downvote''\<rparr>,
      \<lparr>vote_suggestion_id = ''k3x9q2ab'', vote_user_id = 11, vote_type = ''downvote''\<rparr>] \<and>
   (\<exists>es. snd (snd (cast_vote Down voted_db ''k3x9q2ab'' sample_press)) = Inr es \<and>
      shown_tally es = Some (0, 2)) \<and>
   snd (snd (cast_vote Up sample_db ''k3x9q2ab'' refused_press)) = Inr [sample_embed] \<and>
   snd (snd (cast_vote Up sample_db ''k3x9q2ab'' unanswered_press)) = Inl HTTPException"
proof -
  have s0: "get_suggestion sample_db ''k3x9q2ab'' = Some sample_row"
    by (simp add: get_suggestion_def sample_db_def sample_row_def)
  have s1: "get_suggestion voted_db ''k3x9q2ab'' = Some sample_row"
    by (simp add: get_suggestion_def voted_db_def sample_db_def sample_row_def)
  have g: "guild_id sample_row = i_guild_id sample_press"
    by (simp add: sample_row_def sample_press_def)
  have p: "status sample_row = ''pending''"
    by (simp add: sample_row_def)
  have u: "i_user_id sample_press = 11" "i_send_message sample_press = None"
    "i_message_edit sample_press = None"
    "shown_tally (i_message_embeds sample_press) = Some (0, 0)"
    by (simp_all add: sample_press_def sample_embed_def shown_tally_def)
  have g': "guild_id sample_row = i_guild_id refused_press"
    "guild_id sample_row = i_guild_id unanswered_press"
    by (simp_all add: sample_row_def refused_press_def unanswered_press_def sample_press_def)
  have u': "i_send_message refused_press = None" "i_message_edit refused_press = Some Forbidden"
    "i_message_embeds refused_press = [sample_embed]"
    "i_send_message unanswered_press = Some HTTPException"
    by (simp_all add: refused_press_def unanswered_press_def sample_press_def)
  have t3: "cast_vote Up sample_db ''k3x9q2ab'' refused_press =
     (fst (cast_vote Up sample_db ''k3x9q2ab'' refused_press),
      fst (snd (cast_vote Up sample_db ''k3x9q2ab'' refused_press)),
      snd (snd (cast_vote Up sample_db ''k3x9q2ab'' refused_press)))"
    by simp
  have t4: "cast_vote Up sample_db ''k3x9q2ab'' unanswered_press =
     (fst (cast_vote Up sample_db ''k3x9q2ab'' unanswered_press),
      fst (snd (cast_vote Up sample_db ''k3x9q2ab'' unanswered_press)),
      snd (snd (cast_vote Up sample_db ''k3x9q2ab'' unanswered_press)))"
    by simp
  have r3: "snd (snd (cast_vote Up sample_db ''k3x9q2ab'' refused_press)) = Inr [sample_embed]"
    using cast_vote_decision_table [OF s0 g'(1) p t3] u' by simp
  have r4: "snd (snd (cast_vote Up sample_db ''k3x9q2ab'' unanswered_press)) = Inl HTTPException"
    using cast_vote_decision_table [OF s0 g'(2) p t4] u' by simp
  have v0: "get_user_vote sample_db ''k3x9q2ab'' 11 = None"
    by (simp add: get_user_vote_def sample_db_def)
  have v1: "get_user_vote voted_db ''k3x9q2ab'' 11 = Some ''upvote''"
    by (simp add: get_user_vote_def voted_db_def vote_key_def)
  have e0: "cast_vote Up sample_db ''k3x9q2ab'' sample_press =
     (Upvoted,
      sample_db\<lparr>votes := [\<lparr>vote_suggestion_id = ''k3x9q2ab'', vote_user_id = 11, vote_type = ''upvote''\<rparr>]\<rparr>,
      Inr [sample_embed\<lparr>embed_fields :=
             [(Description_field, Text ''Add a dark theme''), (Results_so_far, Counts 1 0)]\<rparr>])"
    by code_simp
  have t1: "cast_vote Up voted_db ''k3x9q2ab'' sample_press =
     (fst (cast_vote Up voted_db ''k3x9q2ab'' sample_press),
      fst (snd (cast_vote Up voted_db ''k3x9q2ab'' sample_press)),
      snd (snd (cast_vote Up voted_db ''k3x9q2ab'' sample_press)))"
    by simp
  have t2: "cast_vote Down voted_db ''k3x9q2ab'' sample_press =
     (fst (cast_vote Down voted_db ''k3x9q2ab'' sample_press),
      fst (snd (cast_vote Down voted_db ''k3x9q2ab'' sample_press)),
      snd (snd (cast_vote Down voted_db ''k3x9q2ab'' sample_press)))"
    by simp
  have vs: "votes voted_db =
     [\<lparr>vote_suggestion_id = ''k3x9q2ab'', vote_user_id = 11, vote_type = ''upvote''\<rparr>,
      \<lparr>vote_suggestion_id = ''k3x9q2ab'', vote_user_id = 14, vote_type = ''downvote''\<rparr>]"
    by (simp add: voted_db_def)
  have c: "count_rows (fst (snd (cast_vote Down voted_db ''k3x9q2ab'' sample_press))) ''k3x9q2ab'' ''upvote'' = 0
     \<and> count_rows (fst (snd (cast_vote Down voted_db ''k3x9q2ab'' sample_press))) ''k3x9q2ab'' ''downvote'' = 2"
    using cast_vote_decision_table [OF s1 g p t2] v1 u
    by (simp add: vs vote_key_def count_rows_def)
  have t0: "cast_vote Up sample_db ''k3x9q2ab'' sample_press =
     (fst (cast_vote Up sample_db ''k3x9q2ab'' sample_press),
      fst (snd (cast_vote Up sample_db ''k3x9q2ab'' sample_press)),
      snd (snd (cast_vote Up sample_db ''k3x9q2ab'' sample_press)))"
    by simp
  show ?thesis
    using e0 v0 v1 u c r3 r4
      cast_vote_decision_table [OF s0 g p t0]
      cast_vote_decision_table [OF s1 g p t1]
      cast_vote_decision_table [OF s1 g p t2]
    by (simp add: vs vote_key_def)
qed

text \<open>
  The claim as it is written fails: user 11, without a vote, presses the upvote button of
  the pending sample suggestion. The row is inserted and the reply is the addition; but
  when the platform refuses the edit the message still shows 0 and 0 while the store
  counts one upvote, and when the reply raises the message is not touched at all.
\<close>

theorem cast_vote_stale_tally_counterexample:
  "map_option status (get_suggestion sample_db ''k3x9q2ab'') = Some ''pending'' \<and>
   get_user_vote sample_db ''k3x9q2ab'' 11 = None \<and>
   cast_vote Up sample_db ''k3x9q2ab'' refused_press =
     (Upvoted,
      sample_db\<lparr>votes := [\<lparr>vote_suggestion_id = ''k3x9q2ab'', vote_user_id = 11, vote_type = ''upvote''\<rparr>]\<rparr>,
      Inr [sample_embed]) \<and>
   shown_tally [sample_embed] = Some (0, 0) \<and>
   count_rows
     (sample_db\<lparr>votes := [\<lparr>vote_suggestion_id = ''k3x9q2ab'', vote_user_id = 11, vote_type = ''upvote''\<rparr>]\<rparr>)
     ''k3x9q2ab'' ''upvote'' = 1 \<and>
   cast_vote Up sample_db ''k3x9q2ab'' unanswered_press =
     (Upvoted,
      sample_db\<lparr>votes := [\<lparr>vote_suggestion_id = ''k3x9q2ab'', vote_user_id = 11, vote_type = ''upvote''\<rparr>]\<rparr>,
      Inl HTTPException)"
  by code_simp

section \<open>Closed votes and foreign guilds\<close>



lemma get_suggestion_without: "get_suggestion (without d sid) sid = None"
  by (simp add: get_suggestion_def without_def find_None_iff)

lemma get_guild_settings_without: "get_guild_settings (without d sid) g = get_guild_settings d g"
  by (simp add: get_guild_settings_def without_def)

text \<open>
  Claim C10. When the suggestion is stored under another guild than the one of the
  interaction, a button press and a decision command change nothing in the store and
  on the platform, and they answer what they answer when no suggestion has that
  identifier: the not-found reply for a press, and for a command that passes the reviewer
  checks.
\<close>

theorem other_guild_not_found:
  assumes "get_suggestion d sid = Some s"
  shows "(guild_id s \<noteq> i_guild_id i \<longrightarrow>
            cast_vote dir d sid i = (Suggestion_not_found, d, Inr (i_message_embeds i)) \<and>
            fst (cast_vote dir (without d sid) sid i) = Suggestion_not_found) \<and>
         (guild_id s \<noteq> c_guild_id c \<longrightarrow>
            snd (decide v d c sid reason anonymous) = (d, []) \<and>
            fst (decide v d c sid reason anonymous) =
              fst (decide v (without d sid) c sid reason anonymous) \<and>
            (reviewer_ok d c \<longrightarrow> fst (decide v d c sid reason anonymous) = Suggestion_not_found))"
proof -
  have press: "guild_id s \<noteq> i_guild_id i \<Longrightarrow>
      cast_vote dir d sid i = (Suggestion_not_found, d, Inr (i_message_embeds i))"
    using assms by (cases dir) (simp_all add: handle_upvote_def handle_downvote_def)
  have absent: "fst (cast_vote dir (without d sid) sid i) = Suggestion_not_found"
    by (cases dir) (simp_all add: handle_upvote_def handle_downvote_def get_suggestion_without)
  have cmd: "guild_id s \<noteq> c_guild_id c \<Longrightarrow>
      snd (decide v d c sid reason anonymous) = (d, []) \<and>
      fst (decide v d c sid reason anonymous) =
        fst (decide v (without d sid) c sid reason anonymous) \<and>
      (reviewer_ok d c \<longrightarrow> fst (decide v d c sid reason anonymous) = Suggestion_not_found)"
    using assms
    by (cases v)
       (auto simp: approve_def reject_def reviewer_ok_def get_suggestion_without
          get_guild_settings_without split: option.splits)
  show ?thesis using press absent cmd by blast
qed

theorem other_guild_not_found_witness:
  "get_suggestion two_guild_db ''k3x9q2ab'' = Some sample_row \<and>
   guild_id sample_row \<noteq> i_guild_id foreign_press \<and>
   guild_id sample_row \<noteq> c_guild_id foreign_command \<and>
   reviewer_ok two_guild_db foreign_command \<and>
   cast_vote Up two_guild_db ''k3x9q2ab'' foreign_press =
     (Suggestion_not_found, two_guild_db, Inr [sample_embed]) \<and>
   decide Approve two_guild_db foreign_command ''k3x9q2ab'' None False =
     (Suggestion_not_found, two_guild_db, []) \<and>
   decide Reject two_guild_db foreign_command ''k3x9q2ab'' None False =
     (Suggestion_not_found, two_guild_db, [])"
proof -
  have s: "get_suggestion two_guild_db ''k3x9q2ab'' = Some sample_row"
    by (simp add: get_suggestion_def two_guild_db_def sample_db_def sample_row_def)
  have g: "guild_id sample_row \<noteq> i_guild_id foreign_press"
    "guild_id sample_row \<noteq> c_guild_id foreign_command"
    by (simp_all add: sample_row_def foreign_press_def foreign_command_def)
  have r: "reviewer_ok two_guild_db foreign_command"
    by (simp add: reviewer_ok_def get_guild_settings_def two_guild_db_def sample_db_def
        foreign_command_def)
  have e: "i_message_embeds foreign_press = [sample_embed]"
    by (simp add: foreign_press_def)
  have a: "cast_vote Up two_guild_db ''k3x9q2ab'' foreign_press =
             (Suggestion_not_found, two_guild_db, Inr (i_message_embeds foreign_press))"
    "snd (decide Approve two_guild_db foreign_command ''k3x9q2ab'' None False) = (two_guild_db, [])"
    "fst (decide Approve two_guild_db foreign_command ''k3x9q2ab'' None False) = Suggestion_not_found"
    using g r other_guild_not_found [OF s, of foreign_press Up foreign_command Approve None False]
    by blast+
  have b: "snd (decide Reject two_guild_db foreign_command ''k3x9q2ab'' None False) = (two_guild_db, [])"
    "fst (decide Reject two_guild_db foreign_command ''k3x9q2ab'' None False) = Suggestion_not_found"
    using g r other_guild_not_found [OF s, of foreign_press Up foreign_command Reject None False]
    by blast+
  show ?thesis
    using s g r e a b by (simp add: prod_eq_iff)
qed

section \<open>Submission without a channel\<close>

text \<open>
  Claim C7. When the guild of a submission has no settings row, or a settings row whose
  suggestion channel is unset, \<^verbatim>\<open>on_submit\<close> answers that the channel is not set up and
  returns the store unchanged: no suggestion row is created.
\<close>

theorem on_submit_not_configured:
  assumes "\<forall>st. get_guild_settings d (s_guild_id i) = Some st \<longrightarrow> \<not> truthy (fst st)"
  shows "on_submit d m i = (Channel_not_set_up, d)"
  using assms by (auto simp: on_submit_def split: option.splits)

theorem on_submit_not_configured_witness:
  "get_guild_settings sample_db 3 = None \<and>
   on_submit sample_db
     \<lparr>title_input = ''Dark mode'', description_input = ''Add a dark theme'',
      pros_input = ''Easier on the eyes'', cons_input = ''More work'', modal_image_url = None\<rparr>
     \<lparr>s_guild_id = 3, s_user_id = 10, s_guild_channels = [5],
      s_bot_permissions = (\<lambda>_. required_perms), s_send = Inr 101, s_create_thread = Inr 201,
      s_now = ''2024-01-02T00:00:00+00:00'', s_rnd = (\<lambda>n. n)\<rparr>
     = (Channel_not_set_up, sample_db) \<and>
   get_guild_settings (set_reviewer_role empty_db 1 7) 1 = Some (None, Some 7, None) \<and>
   on_submit (set_reviewer_role empty_db 1 7)
     \<lparr>title_input = ''Dark mode'', description_input = ''Add a dark theme'',
      pros_input = ''Easier on the eyes'', cons_input = ''More work'', modal_image_url = None\<rparr>
     \<lparr>s_guild_id = 1, s_user_id = 10, s_guild_channels = [5],
      s_bot_permissions = (\<lambda>_. required_perms), s_send = Inr 101, s_create_thread = Inr 201,
      s_now = ''2024-01-02T00:00:00+00:00'', s_rnd = (\<lambda>n. n)\<rparr>
     = (Channel_not_set_up, set_reviewer_role empty_db 1 7)"
proof -
  have n: "get_guild_settings sample_db 3 = None"
    by (simp add: get_guild_settings_def sample_db_def)
  have r: "get_guild_settings (set_reviewer_role empty_db 1 7) 1 = Some (None, Some 7, None)"
    by (simp add: get_guild_settings_def set_reviewer_role_def empty_db_def)
  show ?thesis
    using n r
      on_submit_not_configured [of sample_db
        "\<lparr>s_guild_id = 3, s_user_id = 10, s_guild_channels = [5],
          s_bot_permissions = (\<lambda>_. required_perms), s_send = Inr 101, s_create_thread = Inr 201,
          s_now = ''2024-01-02T00:00:00+00:00'', s_rnd = (\<lambda>n. n)\<rparr>"]
      on_submit_not_configured [of "set_reviewer_role empty_db 1 7"
        "\<lparr>s_guild_id = 1, s_user_id = 10, s_guild_channels = [5],
          s_bot_permissions = (\<lambda>_. required_perms), s_send = Inr 101, s_create_thread = Inr 201,
          s_now = ''2024-01-02T00:00:00+00:00'', s_rnd = (\<lambda>n. n)\<rparr>"]
    by simp
qed

section \<open>One vote row for each voter\<close>

lemma run_store_snoc: "run_store (ops @ [x]) = store_step (run_store ops) x"
  by (simp add: run_store_def)

lemma run_store_append: "run_store (ops @ tl_ops) = foldl store_step (run_store ops) tl_ops"
  by (simp add: run_store_def)

lemma votes_settings [simp]:
  "votes (set_suggestion_channel d g c) = votes d"
  "votes (set_reviewer_role d g c) = votes d"
  "votes (set_blocked_role d g c) = votes d"
  by (simp_all add: set_suggestion_channel_def set_reviewer_role_def set_blocked_role_def
      split: option.splits)

lemma votes_update_suggestion_status [simp]:
  "votes (update_suggestion_status d sid st reason anonymous) = votes d"
  by (simp add: update_suggestion_status_def)

lemma votes_save_suggestion:
  "save_suggestion d now sid g u mid tid ttl descr prs cns img = Inr d' \<Longrightarrow> votes d' = votes d"
  by (auto simp: save_suggestion_def split: option.splits)

lemma add_vote_unique:
  assumes "length (filter (vote_key sid' u') (votes d)) \<le> 1"
  shows "length (filter (vote_key sid' u') (votes (snd (add_vote d sid u vt)))) \<le> 1"
proof (cases "find (vote_key sid u) (votes d)")
  case (Some r)
  with assms show ?thesis by (simp add: add_vote_def)
next
  case None
  then have empty: "filter (vote_key sid u) (votes d) = []"
    by (simp add: find_None_iff filter_empty_conv)
  show ?thesis
  proof (cases "sid' = sid \<and> u' = u")
    case True
    with None empty show ?thesis by (simp add: add_vote_def vote_key_def)
  next
    case False
    with None assms show ?thesis by (auto simp: add_vote_def vote_key_def)
  qed
qed

lemma length_filter_filter: "length (filter P (filter Q xs)) \<le> length (filter P xs)"
  by (induction xs) simp_all

lemma remove_vote_unique:
  assumes "length (filter (vote_key sid' u') (votes d)) \<le> 1"
  shows "length (filter (vote_key sid' u') (votes (remove_vote d sid u))) \<le> 1"
proof -
  have "length (filter (vote_key sid' u') (filter (\<lambda>r. \<not> vote_key sid u r) (votes d)))
          \<le> length (filter (vote_key sid' u') (votes d))"
    by (rule length_filter_filter)
  with assms show ?thesis by (simp add: remove_vote_def)
qed

lemma store_step_unique:
  assumes "length (filter (vote_key sid u) (votes d)) \<le> 1"
  shows "length (filter (vote_key sid u) (votes (store_step d x))) \<le> 1"
proof (cases x)
  case (Save_suggestion now sid' g u' mid tid ttl descr prs cns img)
  with assms show ?thesis
    by (auto simp: votes_save_suggestion split: sum.splits)
next
  case (Add_vote sid' u' vt)
  then show ?thesis using add_vote_unique [OF assms] by simp
next
  case (Remove_vote sid' u')
  then show ?thesis using remove_vote_unique [OF assms] by simp
qed (use assms in simp_all)

lemma foldl_store_step_unique:
  assumes "length (filter (vote_key sid u) (votes d)) \<le> 1"
  shows "length (filter (vote_key sid u) (votes (foldl store_step d ops))) \<le> 1"
  using assms
proof (induction ops arbitrary: d)
  case Nil
  then show ?case by simp
next
  case (Cons x ops)
  from Cons.prems have "length (filter (vote_key sid u) (votes (store_step d x))) \<le> 1"
    by (rule store_step_unique)
  then show ?case using Cons.IH by simp
qed

lemma run_store_unique: "length (filter (vote_key sid u) (votes (run_store ops))) \<le> 1"
  unfolding run_store_def by (rule foldl_store_step_unique) (simp add: empty_db_def)

text \<open>What a button press does to the store is a history of at most two store calls.\<close>

lemma cast_vote_history:
  "\<exists>tl_ops. fst (snd (cast_vote dir d sid i)) = foldl store_step d tl_ops"
proof -
  have none: "d = foldl store_step d []" by simp
  have rem: "remove_vote d sid (i_user_id i) = foldl store_step d [Remove_vote sid (i_user_id i)]"
    by simp
  have add: "snd (add_vote d sid (i_user_id i) vt) = foldl store_step d [Add_vote sid (i_user_id i) vt]"
    for vt by simp
  have sw: "snd (add_vote (remove_vote d sid (i_user_id i)) sid (i_user_id i) vt)
      = foldl store_step d [Remove_vote sid (i_user_id i), Add_vote sid (i_user_id i) vt]"
    for vt by simp
  show ?thesis
  proof (cases dir)
    case Up
    have "fst (snd (handle_upvote d sid i)) \<in>
       {d, remove_vote d sid (i_user_id i), snd (add_vote d sid (i_user_id i) ''upvote''),
        snd (add_vote (remove_vote d sid (i_user_id i)) sid (i_user_id i) ''upvote'')}"
      by (simp add: handle_upvote_def Let_def split: option.splits)
    with Up show ?thesis using none rem add sw by (metis cast_vote.simps(1) insertE singletonD)
  next
    case Down
    have "fst (snd (handle_downvote d sid i)) \<in>
       {d, remove_vote d sid (i_user_id i), snd (add_vote d sid (i_user_id i) ''downvote''),
        snd (add_vote (remove_vote d sid (i_user_id i)) sid (i_user_id i) ''downvote'')}"
      by (simp add: handle_downvote_def Let_def split: option.splits)
    with Down show ?thesis using none rem add sw by (metis cast_vote.simps(2) insertE singletonD)
  qed
qed

lemma cast_vote_store:
  assumes "get_suggestion d sid = Some s" and "guild_id s = i_guild_id i"
    and "status s = ''pending''"
  shows "fst (snd (cast_vote dir d sid i)) =
     (let u = i_user_id i; c = get_user_vote d sid u
      in if c = Some (vote_name dir) then remove_vote d sid u
         else if c = Some (vote_name (opposite dir))
         then snd (add_vote (remove_vote d sid u) sid u (vote_name dir))
         else snd (add_vote d sid u (vote_name dir)))"
  using assms by (cases dir) (simp_all add: handle_upvote_table handle_downvote_table Let_def)

lemma find_snoc_fresh:
  "find P xs = None \<Longrightarrow> find P (xs @ [x]) = (if P x then Some x else None)"
  by (induction xs) (auto split: if_splits)

lemma filter_not_key_id:
  "find (vote_key sid u) rows = None \<Longrightarrow> filter (\<lambda>r. \<not> vote_key sid u r) rows = rows"
  by (simp add: find_None_iff filter_id_conv)

lemma toggle_twice:
  assumes s: "get_suggestion d sid = Some s" and g: "guild_id s = i_guild_id i"
    and p: "status s = ''pending''"
    and j: "i_guild_id j = i_guild_id i" "i_user_id j = i_user_id i"
    and c: "get_user_vote d sid (i_user_id i) = None"
  shows "fst (snd (cast_vote dir (fst (snd (cast_vote dir d sid i))) sid j)) = d"
proof -
  define d1 where "d1 = fst (snd (cast_vote dir d sid i))"
  define row where
    "row = \<lparr>vote_suggestion_id = sid, vote_user_id = i_user_id i, vote_type = vote_name dir\<rparr>"
  have f: "find (vote_key sid (i_user_id i)) (votes d) = None"
    using c by (simp add: get_user_vote_None)
  have d1: "d1 = d\<lparr>votes := votes d @ [row]\<rparr>"
    using c f by (simp add: d1_def cast_vote_store [OF s g p] Let_def add_vote_def row_def)
  have s1: "get_suggestion d1 sid = Some s"
    by (simp add: d1 get_suggestion_def s [unfolded get_suggestion_def])
  have c1: "get_user_vote d1 sid (i_user_id j) = Some (vote_name dir)"
    using f by (simp add: d1 get_user_vote_def j find_snoc_fresh) (simp add: row_def vote_key_def)
  have "fst (snd (cast_vote dir d1 sid j)) = remove_vote d1 sid (i_user_id j)"
    using g j c1 by (simp add: cast_vote_store [OF s1 _ p] Let_def)
  also have "\<dots> = d"
    using f by (simp add: remove_vote_def d1 j filter_not_key_id) (simp add: row_def vote_key_def)
  finally show ?thesis by (simp add: d1_def)
qed

text \<open>
  Claim C6. After every history of store calls, and after any button press that follows
  one, the votes table holds at most one row for each pair of suggestion and voter. And
  when a voter without a vote on a pending suggestion presses the same button twice, the
  first press inserts the voter's row and the second deletes it: the store is back in
  its initial state and the voter has no row.
\<close>

theorem vote_rows_unique_and_toggle:
  "length (filter (vote_key sid' u') (votes (run_store ops))) \<le> 1 \<and>
   length (filter (vote_key sid' u') (votes (fst (snd (cast_vote dir (run_store ops) sid i))))) \<le> 1 \<and>
   (get_suggestion d sid = Some s \<and> guild_id s = i_guild_id i \<and> status s = ''pending'' \<and>
    i_guild_id j = i_guild_id i \<and> i_user_id j = i_user_id i \<and>
    get_user_vote d sid (i_user_id i) = None \<longrightarrow>
      get_user_vote (fst (snd (cast_vote dir d sid i))) sid (i_user_id i) = Some (vote_name dir) \<and>
      fst (snd (cast_vote dir (fst (snd (cast_vote dir d sid i))) sid j)) = d \<and>
      get_user_vote (fst (snd (cast_vote dir (fst (snd (cast_vote dir d sid i))) sid j)))
        sid (i_user_id i) = None)"
proof -
  obtain tl_ops where m: "fst (snd (cast_vote dir (run_store ops) sid i))
      = foldl store_step (run_store ops) tl_ops"
    using cast_vote_history by blast
  have a: "length (filter (vote_key sid' u') (votes (fst (snd (cast_vote dir (run_store ops) sid i))))) \<le> 1"
    unfolding m by (rule foldl_store_step_unique) (rule run_store_unique)
  have b: "get_user_vote (fst (snd (cast_vote dir d sid i))) sid (i_user_id i) = Some (vote_name dir)"
    if s: "get_suggestion d sid = Some s" and g: "guild_id s = i_guild_id i"
      and p: "status s = ''pending''" and c: "get_user_vote d sid (i_user_id i) = None"
  proof -
    have f: "find (vote_key sid (i_user_id i)) (votes d) = None"
      using c by (simp add: get_user_vote_None)
    show ?thesis
      using c f
      by (simp add: cast_vote_store [OF s g p] Let_def add_vote_def)
         (simp add: get_user_vote_def find_snoc_fresh vote_key_def)
  qed
  show ?thesis
    using run_store_unique a b toggle_twice by (auto simp del: cast_vote.simps)
qed

theorem vote_rows_unique_and_toggle_witness:
  "votes (run_store [Add_vote ''k3x9q2ab'' 11 ''upvote'', Add_vote ''k3x9q2ab'' 11 ''downvote''])
     = [\<lparr>vote_suggestion_id = ''k3x9q2ab'', vote_user_id = 11, vote_type = ''upvote''\<rparr>] \<and>
   length (filter (vote_key ''k3x9q2ab'' 11)
     (votes (run_store [Add_vote ''k3x9q2ab'' 11 ''upvote'', Add_vote ''k3x9q2ab'' 11 ''downvote'']))) \<le> 1 \<and>
   get_user_vote sample_db ''k3x9q2ab'' 11 = None \<and>
   get_user_vote (fst (snd (cast_vote Up sample_db ''k3x9q2ab'' sample_press))) ''k3x9q2ab'' 11
     = Some ''upvote'' \<and>
   fst (snd (cast_vote Up (fst (snd (cast_vote Up sample_db ''k3x9q2ab'' sample_press)))
     ''k3x9q2ab'' sample_press)) = sample_db"
proof -
  have s: "get_suggestion sample_db ''k3x9q2ab'' = Some sample_row"
    by (simp add: get_suggestion_def sample_db_def sample_row_def)
  have g: "guild_id sample_row = i_guild_id sample_press" "status sample_row = ''pending''"
    "i_user_id sample_press = 11"
    by (simp_all add: sample_row_def sample_press_def)
  have v: "get_user_vote sample_db ''k3x9q2ab'' 11 = None"
    by (simp add: get_user_vote_def sample_db_def)
  have n: "votes (run_store [Add_vote ''k3x9q2ab'' 11 ''upvote'', Add_vote ''k3x9q2ab'' 11 ''downvote''])
     = [\<lparr>vote_suggestion_id = ''k3x9q2ab'', vote_user_id = 11, vote_type = ''upvote''\<rparr>]"
    by code_simp
  show ?thesis
    using s g v n
      vote_rows_unique_and_toggle [where d = sample_db and sid = "''k3x9q2ab''" and s = sample_row
        and i = sample_press and j = sample_press and dir = Up and sid' = "''k3x9q2ab''"
        and u' = 11
        and ops = "[Add_vote ''k3x9q2ab'' 11 ''upvote'', Add_vote ''k3x9q2ab'' 11 ''downvote'']"]
    by (simp del: cast_vote.simps)
qed

section \<open>Re-attaching the pending suggestions\<close>

lemma suggestions_settings [simp]:
  "suggestions (set_suggestion_channel d g c) = suggestions d"
  "suggestions (set_reviewer_role d g c) = suggestions d"
  "suggestions (set_blocked_role d g c) = suggestions d"
  by (simp_all add: set_suggestion_channel_def set_reviewer_role_def set_blocked_role_def
      split: option.splits)

lemma suggestions_votes [simp]:
  "suggestions (snd (add_vote d sid u vt)) = suggestions d"
  "suggestions (remove_vote d sid u) = suggestions d"
  by (simp_all add: add_vote_def remove_vote_def split: option.splits)

lemma ids_update_suggestion_status [simp]:
  "map suggestion_id (suggestions (update_suggestion_status d sid st reason anonymous))
     = map suggestion_id (suggestions d)"
  by (simp add: update_suggestion_status_def comp_def)

lemma find_None_ids: "find (\<lambda>r. suggestion_id r = sid) rows = None \<Longrightarrow> sid \<notin> set (map suggestion_id rows)"
  by (auto simp: find_None_iff)

lemma store_step_distinct:
  assumes "distinct (map suggestion_id (suggestions d))"
  shows "distinct (map suggestion_id (suggestions (store_step d x)))"
proof (cases x)
  case (Save_suggestion now sid g u mid tid ttl descr prs cns img)
  with assms show ?thesis
    by (auto simp: save_suggestion_def dest: find_None_ids split: option.splits)
qed (use assms in simp_all)

lemma run_store_distinct: "distinct (map suggestion_id (suggestions (run_store ops)))"
proof (induction ops rule: rev_induct)
  case Nil
  show ?case by (simp add: run_store_def empty_db_def)
next
  case (snoc x ops)
  then show ?case by (simp add: run_store_snoc store_step_distinct)
qed

lemma find_distinct_ids:
  assumes "distinct (map suggestion_id rows)"
    and "find (\<lambda>r. suggestion_id r = sid) rows = Some s"
    and "r \<in> set rows" and "suggestion_id r = sid"
  shows "r = s"
  using assms
proof (induction rows)
  case Nil
  then show ?case by simp
next
  case (Cons a rows)
  then show ?case by (auto split: if_splits)
qed

lemma find_Some_mem:
  "find P rows = Some s \<Longrightarrow> s \<in> set rows \<and> P s"
  by (induction rows) (auto split: if_splits)

lemma pending_ids_mem:
  "sid \<in> set (pending_suggestion_ids d) \<longleftrightarrow>
     (\<exists>r \<in> set (suggestions d). suggestion_id r = sid \<and> status r = ''pending'')"
  by (auto simp: pending_suggestion_ids_def)

text \<open>
  Claim C8. The query of \<^verbatim>\<open>on_ready\<close> yields exactly the identifiers of the rows whose
  status is \<^verbatim>\<open>'pending'\<close>; \<^verbatim>\<open>on_ready\<close> returns the store it found and registers a view
  for each of them. In a store produced by the program, where an identifier names one
  row, a stored suggestion is among them exactly when its status is \<^verbatim>\<open>'pending'\<close>, so
  none with status \<^verbatim>\<open>'approved'\<close> or \<^verbatim>\<open>'rejected'\<close> is.
\<close>

theorem on_ready_pending_exactly:
  "(sid \<in> set (pending_suggestion_ids d) \<longleftrightarrow>
      (\<exists>r \<in> set (suggestions d). suggestion_id r = sid \<and> status r = ''pending'')) \<and>
   on_ready None (Some d) (\<lambda>_. True) = Inr (d, pending_suggestion_ids d) \<and>
   (get_suggestion (run_store ops) sid = Some s \<longrightarrow>
      (sid \<in> set (pending_suggestion_ids (run_store ops)) \<longleftrightarrow> status s = ''pending''))"
proof -
  have a: "on_ready None (Some d) (\<lambda>_. True) = Inr (d, pending_suggestion_ids d)"
    by (simp add: on_ready_def init_suggestions_db_def)
  have b: "sid \<in> set (pending_suggestion_ids (run_store ops)) \<longleftrightarrow> status s = ''pending''"
    if s: "get_suggestion (run_store ops) sid = Some s"
  proof
    assume "sid \<in> set (pending_suggestion_ids (run_store ops))"
    then obtain r where r: "r \<in> set (suggestions (run_store ops))" "suggestion_id r = sid"
      "status r = ''pending''"
      by (auto simp: pending_ids_mem)
    from find_distinct_ids [OF run_store_distinct s [unfolded get_suggestion_def] r(1,2)] r(3)
    show "status s = ''pending''" by simp
  next
    assume "status s = ''pending''"
    with find_Some_mem [OF s [unfolded get_suggestion_def]]
    show "sid \<in> set (pending_suggestion_ids (run_store ops))"
      by (auto simp: pending_ids_mem)
  qed
  show ?thesis using pending_ids_mem a b by blast
qed

theorem on_ready_pending_exactly_witness:
  "map (\<lambda>r. (suggestion_id r, status r)) (suggestions (run_store restart_history))
     = [(''k3x9q2ab'', ''approved''), (''p7m4z1cd'', ''pending'')] \<and>
   on_ready None (Some (run_store restart_history)) (\<lambda>_. True)
     = Inr (run_store restart_history, [''p7m4z1cd'']) \<and>
   ''p7m4z1cd'' \<in> set (pending_suggestion_ids (run_store restart_history)) \<and>
   ''k3x9q2ab'' \<notin> set (pending_suggestion_ids (run_store restart_history))"
proof -
  have rows: "map (\<lambda>r. (suggestion_id r, status r)) (suggestions (run_store restart_history))
     = [(''k3x9q2ab'', ''approved''), (''p7m4z1cd'', ''pending'')]"
    by code_simp
  have p: "pending_suggestion_ids (run_store restart_history) = [''p7m4z1cd'']"
    by code_simp
  have s1: "map_option status (get_suggestion (run_store restart_history) ''k3x9q2ab'') = Some ''approved''"
    by code_simp
  have s2: "map_option status (get_suggestion (run_store restart_history) ''p7m4z1cd'') = Some ''pending''"
    by code_simp
  from s1 obtain a where a: "get_suggestion (run_store restart_history) ''k3x9q2ab'' = Some a"
    "status a = ''approved''" by auto
  from s2 obtain b where b: "get_suggestion (run_store restart_history) ''p7m4z1cd'' = Some b"
    "status b = ''pending''" by auto
  show ?thesis
    using rows p a b
      on_ready_pending_exactly [of "''k3x9q2ab''" "run_store restart_history" restart_history a]
      on_ready_pending_exactly [of "''p7m4z1cd''" "run_store restart_history" restart_history b]
    by simp
qed

section \<open>Decisions\<close>

lemma decide_accepted:
  assumes "reviewer_ok d c" and "get_suggestion d sid = Some s" and "guild_id s = c_guild_id c"
  shows "fst (decide v d c sid reason anonymous) = verdict_reply v sid \<and>
         fst (snd (decide v d c sid reason anonymous)) =
           update_suggestion_status d sid (verdict_status v) reason anonymous"
  using assms
  by (cases v)
     (auto simp: approve_def reject_def reviewer_ok_def Let_def split: option.splits)

lemma reviewer_ok_platform [simp]:
  "reviewer_ok d (c\<lparr>c_guild_channels := chs, c_fetch_message := fm, c_message_edit := me,
      c_fetch_channel := fc, c_thread_edit := te\<rparr>) = reviewer_ok d c"
  by (simp add: reviewer_ok_def split: option.splits prod.splits)

text \<open>
  Claim C9. Once a decision command has passed its checks and written status, reason and
  anonymity flag, the store it ends with is the store of that one write, whatever the
  platform answers to the rendering steps that follow: a missing channel, a failing
  \<^verbatim>\<open>fetch_message\<close>, a message without embed, a failing \<^verbatim>\<open>message.edit\<close>, a failing
  \<^verbatim>\<open>fetch_channel\<close> or \<^verbatim>\<open>thread.edit\<close>. The reply is the success reply in each case.
\<close>

theorem decide_store_survives_rendering:
  assumes "reviewer_ok d c" and "get_suggestion d sid = Some s" and "guild_id s = c_guild_id c"
  shows "fst (snd (decide v d
           (c\<lparr>c_guild_channels := chs, c_fetch_message := fm, c_message_edit := me,
              c_fetch_channel := fc, c_thread_edit := te\<rparr>) sid reason anonymous))
         = update_suggestion_status d sid (verdict_status v) reason anonymous \<and>
         fst (decide v d
           (c\<lparr>c_guild_channels := chs, c_fetch_message := fm, c_message_edit := me,
              c_fetch_channel := fc, c_thread_edit := te\<rparr>) sid reason anonymous)
         = verdict_reply v sid"
  using decide_accepted [of d "c\<lparr>c_guild_channels := chs, c_fetch_message := fm,
      c_message_edit := me, c_fetch_channel := fc, c_thread_edit := te\<rparr>" sid s v reason anonymous]
    assms
  by simp

theorem decide_store_survives_rendering_witness:
  "reviewer_ok sample_db sample_command \<and>
   get_suggestion sample_db ''k3x9q2ab'' = Some sample_row \<and>
   guild_id sample_row = c_guild_id sample_command \<and>
   decide Approve sample_db
     (sample_command\<lparr>c_guild_channels := [5], c_fetch_message := (\<lambda>_. Inr [sample_embed]),
        c_message_edit := Some HTTPException, c_fetch_channel := (\<lambda>_. Inl NotFound),
        c_thread_edit := Some Forbidden\<rparr>) ''k3x9q2ab'' (Some ''good idea'') False
     = (Suggestion_approved ''k3x9q2ab'',
        sample_db\<lparr>suggestions :=
          [sample_row\<lparr>status := ''approved'', decision_reason := Some ''good idea''\<rparr>]\<rparr>,
        []) \<and>
   fst (snd (decide Reject sample_db
     (sample_command\<lparr>c_guild_channels := [], c_fetch_message := (\<lambda>_. Inl NotFound),
        c_message_edit := None, c_fetch_channel := (\<lambda>_. Inl Forbidden),
        c_thread_edit := None\<rparr>) ''k3x9q2ab'' None True))
     = sample_db\<lparr>suggestions :=
          [sample_row\<lparr>status := ''rejected'', decided_anonymously := 1\<rparr>]\<rparr>"
proof -
  have r: "reviewer_ok sample_db sample_command"
    by (simp add: reviewer_ok_def get_guild_settings_def sample_db_def sample_command_def)
  have s: "get_suggestion sample_db ''k3x9q2ab'' = Some sample_row"
    by (simp add: get_suggestion_def sample_db_def sample_row_def)
  have g: "guild_id sample_row = c_guild_id sample_command"
    by (simp add: sample_row_def sample_command_def)
  have u1: "update_suggestion_status sample_db ''k3x9q2ab'' ''approved'' (Some ''good idea'') False
      = sample_db\<lparr>suggestions :=
          [sample_row\<lparr>status := ''approved'', decision_reason := Some ''good idea''\<rparr>]\<rparr>"
    by (simp add: update_suggestion_status_def sample_db_def sample_row_def)
  have u2: "update_suggestion_status sample_db ''k3x9q2ab'' ''rejected'' None True
      = sample_db\<lparr>suggestions :=
          [sample_row\<lparr>status := ''rejected'', decided_anonymously := 1\<rparr>]\<rparr>"
    by (simp add: update_suggestion_status_def sample_db_def sample_row_def)
  have acts: "snd (snd (decide Approve sample_db
     (sample_command\<lparr>c_guild_channels := [5], c_fetch_message := (\<lambda>_. Inr [sample_embed]),
        c_message_edit := Some HTTPException, c_fetch_channel := (\<lambda>_. Inl NotFound),
        c_thread_edit := Some Forbidden\<rparr>) ''k3x9q2ab'' (Some ''good idea'') False)) = []"
    by code_simp
  show ?thesis
    using r s g acts
      decide_store_survives_rendering [OF r s g, where v = Approve and chs = "[5]"
        and fm = "\<lambda>_. Inr [sample_embed]" and me = "Some HTTPException"
        and fc = "\<lambda>_. Inl NotFound" and te = "Some Forbidden"
        and reason = "Some ''good idea''" and anonymous = False]
      decide_store_survives_rendering [OF r s g, where v = Reject and chs = "[]"
        and fm = "\<lambda>_. Inl NotFound" and me = None
        and fc = "\<lambda>_. Inl Forbidden" and te = None
        and reason = None and anonymous = True]
    by (simp add: u1 u2 prod_eq_iff del: decide.simps)
qed

section \<open>Deciding again\<close>

lemma find_map_update:
  assumes "\<And>r. suggestion_id (f r) = suggestion_id r"
  shows "find (\<lambda>r. suggestion_id r = x) (map (\<lambda>r. if suggestion_id r = sid then f r else r) rows)
     = map_option (\<lambda>r. if suggestion_id r = sid then f r else r)
         (find (\<lambda>r. suggestion_id r = x) rows)"
  using assms by (induction rows) auto

lemma get_suggestion_update:
  "get_suggestion (update_suggestion_status d sid st reason anonymous) x =
     map_option (\<lambda>r. if suggestion_id r = sid
                       then r\<lparr>status := st, decision_reason := reason,
                              decided_anonymously := (if anonymous then 1 else 0)\<rparr>
                       else r)
       (get_suggestion d x)"
  unfolding get_suggestion_def update_suggestion_status_def
  using find_map_update [of "\<lambda>r. r\<lparr>status := st, decision_reason := reason,
      decided_anonymously := (if anonymous then 1 else 0)\<rparr>" x sid "suggestions d"]
  by simp

lemma get_suggestion_id: "get_suggestion d x = Some s \<Longrightarrow> suggestion_id s = x"
  unfolding get_suggestion_def by (drule find_Some_mem) simp

text \<open>
  Claim C1, as the code has it. A decision command that passes the reviewer checks on a
  suggestion of its guild does not look at the suggestion's status: for an already
  decided suggestion as for a pending one, it answers with the success reply, sets the
  status to its own verdict and overwrites the stored decision reason and anonymity flag
  with its arguments, leaving every other suggestion, the votes and the settings as they
  were. The status written is \<^verbatim>\<open>'approved'\<close> or \<^verbatim>\<open>'rejected'\<close>, never \<^verbatim>\<open>'pending'\<close>.
\<close>

theorem decide_overwrites_decision:
  assumes "reviewer_ok d c" and "get_suggestion d sid = Some s" and "guild_id s = c_guild_id c"
    and "decide v d c sid reason anonymous = (r, d', acts)"
  shows "r = verdict_reply v sid \<and>
         get_suggestion d' sid =
           Some (s\<lparr>status := verdict_status v, decision_reason := reason,
                   decided_anonymously := (if anonymous then 1 else 0)\<rparr>) \<and>
         (\<forall>x. x \<noteq> sid \<longrightarrow> get_suggestion d' x = get_suggestion d x) \<and>
         votes d' = votes d \<and>
         suggestion_guild_settings d' = suggestion_guild_settings d \<and>
         verdict_status v \<noteq> ''pending''"
proof -
  from decide_accepted [OF assms(1-3), of v reason anonymous] assms(4)
  have r: "r = verdict_reply v sid"
    and d': "d' = update_suggestion_status d sid (verdict_status v) reason anonymous"
    by simp_all
  have id: "suggestion_id s = sid" using assms(2) by (rule get_suggestion_id)
  have a: "get_suggestion d' sid =
           Some (s\<lparr>status := verdict_status v, decision_reason := reason,
                   decided_anonymously := (if anonymous then 1 else 0)\<rparr>)"
    unfolding d' get_suggestion_update using assms(2) id by simp
  have b: "get_suggestion d' x = get_suggestion d x" if "x \<noteq> sid" for x
  proof (cases "get_suggestion d x")
    case None
    then show ?thesis unfolding d' get_suggestion_update by simp
  next
    case (Some t)
    then have "suggestion_id t = x" by (rule get_suggestion_id)
    with that Some show ?thesis unfolding d' get_suggestion_update by simp
  qed
  have c: "votes d' = votes d" "suggestion_guild_settings d' = suggestion_guild_settings d"
    unfolding d' by (simp_all add: update_suggestion_status_def)
  have e: "verdict_status v \<noteq> ''pending''" by (cases v) simp_all
  show ?thesis using r a b c e by blast
qed

theorem decide_overwrites_decision_witness:
  "reviewer_ok approved_db sample_command \<and>
   get_suggestion approved_db ''k3x9q2ab'' =
     Some (sample_row\<lparr>status := ''approved'', decision_reason := Some ''good idea''\<rparr>) \<and>
   fst (decide Reject approved_db sample_command ''k3x9q2ab'' None True) =
     Suggestion_rejected ''k3x9q2ab'' \<and>
   get_suggestion (fst (snd (decide Reject approved_db sample_command ''k3x9q2ab'' None True)))
     ''k3x9q2ab'' =
     Some (sample_row\<lparr>status := ''rejected'', decision_reason := None, decided_anonymously := 1\<rparr>) \<and>
   votes (fst (snd (decide Reject approved_db sample_command ''k3x9q2ab'' None True))) =
     votes approved_db"
proof -
  have r: "reviewer_ok approved_db sample_command"
    by (simp add: reviewer_ok_def get_guild_settings_def approved_db_def voted_db_def
        sample_db_def sample_command_def)
  have s: "get_suggestion approved_db ''k3x9q2ab'' =
     Some (sample_row\<lparr>status := ''approved'', decision_reason := Some ''good idea''\<rparr>)"
    by (simp add: get_suggestion_def approved_db_def sample_row_def)
  have g: "guild_id (sample_row\<lparr>status := ''approved'', decision_reason := Some ''good idea''\<rparr>)
     = c_guild_id sample_command"
    by (simp add: sample_row_def sample_command_def)
  have t: "decide Reject approved_db sample_command ''k3x9q2ab'' None True =
     (fst (decide Reject approved_db sample_command ''k3x9q2ab'' None True),
      fst (snd (decide Reject approved_db sample_command ''k3x9q2ab'' None True)),
      snd (snd (decide Reject approved_db sample_command ''k3x9q2ab'' None True)))"
    by simp
  show ?thesis
    using r s decide_overwrites_decision [OF r s g t]
    by (simp del: decide.simps)
qed

text \<open>
  The claim as it is written fails: the sample suggestion was approved with a reason, and
  a later \<^verbatim>\<open>/reject\<close> without reason, anonymously, succeeds and replaces status, reason
  and flag.
\<close>

theorem decide_again_counterexample:
  "map_option status (get_suggestion approved_db ''k3x9q2ab'') = Some ''approved'' \<and>
   map_option decision_reason (get_suggestion approved_db ''k3x9q2ab'') = Some (Some ''good idea'') \<and>
   map_option decided_anonymously (get_suggestion approved_db ''k3x9q2ab'') = Some 0 \<and>
   decide Reject approved_db sample_command ''k3x9q2ab'' None True =
     (Suggestion_rejected ''k3x9q2ab'',
      approved_db\<lparr>suggestions :=
        [sample_row\<lparr>status := ''rejected'', decision_reason := None, decided_anonymously := 1\<rparr>]\<rparr>,
      [])"
  by code_simp

section \<open>The identifier of a submission\<close>









end
